theory Spec2Isabelle
  imports Main
begin

section \<open>JavaScript strings and the string operations the agents use\<close>

text \<open>
  A JavaScript string is a sequence of UTF-16 code units. The parsers look for glyphs
  outside Latin-1 (U+2713 and friends), so a string is modelled as the list of its code
  units, each a natural number. \<open>js\<close> turns an ASCII literal into such a list.
\<close>

type_synonym jsstring = "nat list"

named_theorems text_defs \<open>unfolded when a parser is run on a concrete text\<close>

definition js :: "string \<Rightarrow> jsstring" where
  [text_defs]: "js s = map of_char s"

text \<open>The glyphs of the source, by code point.\<close>

definition check_mark :: nat where [text_defs]: "check_mark = 10003"      \<comment> \<open>U+2713\<close>
definition ballot_x :: nat where [text_defs]: "ballot_x = 10007"          \<comment> \<open>U+2717\<close>
definition mult_x :: nat where [text_defs]: "mult_x = 10005"              \<comment> \<open>U+2715\<close>
definition heavy_mult_x :: nat where [text_defs]: "heavy_mult_x = 10006"  \<comment> \<open>U+2716\<close>
definition white_circle :: nat where [text_defs]: "white_circle = 9675"   \<comment> \<open>U+25CB\<close>
definition hyphen :: nat where [text_defs]: "hyphen = 45"

text \<open>Character classes of ECMAScript regular expressions (without the u flag).\<close>

definition is_digit :: "nat \<Rightarrow> bool" where    \<comment> \<open>\<open>\d\<close>\<close>
  [text_defs]: "is_digit c = (48 \<le> c \<and> c \<le> 57)"

definition is_word :: "nat \<Rightarrow> bool" where     \<comment> \<open>\<open>\w\<close>\<close>
  [text_defs]: "is_word c = ((48 \<le> c \<and> c \<le> 57) \<or> (65 \<le> c \<and> c \<le> 90) \<or> c = 95 \<or> (97 \<le> c \<and> c \<le> 122))"

definition is_lt :: "nat \<Rightarrow> bool" where       \<comment> \<open>line terminators: what \<open>.\<close> refuses\<close>
  [text_defs]: "is_lt c = (c = 10 \<or> c = 13 \<or> c = 8232 \<or> c = 8233)"

definition is_ws :: "nat \<Rightarrow> bool" where       \<comment> \<open>\<open>\s\<close>, and what \<open>trim\<close> removes\<close>
  [text_defs]: "is_ws c = ((9 \<le> c \<and> c \<le> 13) \<or> c = 32 \<or> c = 160 \<or> c = 5760 \<or> (8192 \<le> c \<and> c \<le> 8202)
              \<or> c = 8232 \<or> c = 8233 \<or> c = 8239 \<or> c = 8287 \<or> c = 12288 \<or> c = 65279)"

definition is_dot :: "nat \<Rightarrow> bool" where      \<comment> \<open>\<open>.\<close>\<close>
  [text_defs]: "is_dot c = (if is_lt c then False else True)"

definition is_word_dot :: "nat \<Rightarrow> bool" where \<comment> \<open>\<open>[\w\.]\<close>\<close>
  [text_defs]: "is_word_dot c = (is_word c \<or> c = 46)"

definition is_word_colon :: "nat \<Rightarrow> bool" where \<comment> \<open>\<open>[\w:]\<close>\<close>
  [text_defs]: "is_word_colon c = (is_word c \<or> c = 58)"

fun starts_with :: "jsstring \<Rightarrow> jsstring \<Rightarrow> bool" where  \<comment> \<open>\<open>s.startsWith(p)\<close>\<close>
  "starts_with s [] = True"
| "starts_with [] (p # ps) = False"
| "starts_with (c # cs) (p # ps) = (c = p \<and> starts_with cs ps)"

fun str_includes :: "jsstring \<Rightarrow> jsstring \<Rightarrow> bool" where     \<comment> \<open>\<open>s.includes(p)\<close>\<close>
  "str_includes [] p = starts_with [] p"
| "str_includes (c # cs) p = (starts_with (c # cs) p \<or> str_includes cs p)"

fun split_lines :: "jsstring \<Rightarrow> jsstring list" where      \<comment> \<open>\<open>s.split('\n')\<close>\<close>
  "split_lines [] = [[]]"
| "split_lines (c # cs) =
     (if c = 10 then [] # split_lines cs
      else (case split_lines cs of [] \<Rightarrow> [[c]] | l # ls \<Rightarrow> (c # l) # ls))"

fun before_first :: "jsstring \<Rightarrow> jsstring \<Rightarrow> jsstring" where
  \<comment> \<open>\<open>s.split(sep)[0]\<close> for a non-empty separator: the text before its first occurrence\<close>
  "before_first sep [] = []"
| "before_first sep (c # cs) =
     (if starts_with (c # cs) sep then [] else c # before_first sep cs)"

fun remove_first :: "jsstring \<Rightarrow> jsstring \<Rightarrow> jsstring" where
  \<comment> \<open>\<open>s.replace(pat, '')\<close> for a string pattern: its first occurrence is removed\<close>
  "remove_first pat [] = []"
| "remove_first pat (c # cs) =
     (if starts_with (c # cs) pat then drop (length pat) (c # cs)
      else c # remove_first pat cs)"

definition trim :: "jsstring \<Rightarrow> jsstring" where            \<comment> \<open>\<open>s.trim()\<close>\<close>
  [text_defs]: "trim s = rev (dropWhile is_ws (rev (dropWhile is_ws s)))"

definition parseInt :: "jsstring \<Rightarrow> int" where
  \<comment> \<open>\<open>parseInt\<close> of a run of decimal digits (every call site passes a \<open>\d+\<close> capture)\<close>
  [text_defs]: "parseInt ds = foldl (\<lambda>a c. 10 * a + (int c - 48)) 0 ds"

subsection \<open>Regular expressions, as backtracking matchers\<close>

text \<open>
  A matcher takes the text at the current position and a continuation for the rest of the
  pattern; the continuation returns the captures. A greedy \<open>X+\<close> first takes every
  character it can and gives characters back one at a time while the continuation fails,
  as the ECMAScript matcher does.
\<close>

definition lit :: "jsstring \<Rightarrow> jsstring \<Rightarrow> (jsstring \<Rightarrow> 'a option) \<Rightarrow> 'a option" where
  [text_defs]: "lit p s k = (if starts_with s p then k (drop (length p) s) else None)"

definition one_of :: "(nat \<Rightarrow> bool) \<Rightarrow> jsstring \<Rightarrow> (jsstring \<Rightarrow> 'a option) \<Rightarrow> 'a option" where
  [text_defs]: "one_of P s k = (case s of [] \<Rightarrow> None | c # r \<Rightarrow> if P c then k r else None)"

fun backtrack :: "nat \<Rightarrow> jsstring \<Rightarrow> (jsstring \<Rightarrow> jsstring \<Rightarrow> 'a option) \<Rightarrow> 'a option" where
  "backtrack 0 s k = None"
| "backtrack (Suc j) s k =
     (case k (take (Suc j) s) (drop (Suc j) s) of
        Some r \<Rightarrow> Some r
      | None \<Rightarrow> backtrack j s k)"

definition many1 :: "(nat \<Rightarrow> bool) \<Rightarrow> jsstring \<Rightarrow> (jsstring \<Rightarrow> jsstring \<Rightarrow> 'a option) \<Rightarrow> 'a option" where
  [text_defs]: "many1 P s k = backtrack (length (takeWhile P s)) s k"

fun search :: "(jsstring \<Rightarrow> 'a option) \<Rightarrow> jsstring \<Rightarrow> 'a option" where
  \<comment> \<open>\<open>s.match(re)\<close> without the g flag: the match at the leftmost start position\<close>
  "search m [] = m []"
| "search m (c # cs) = (case m (c # cs) of Some r \<Rightarrow> Some r | None \<Rightarrow> search m cs)"

definition re_count :: "jsstring \<Rightarrow> jsstring \<Rightarrow> jsstring option" where
  \<comment> \<open>\<open>/(\d+)W/\<close> for a literal tail \<open>W\<close> such as \<open>" passed"\<close>; the capture\<close>
  [text_defs]: "re_count w = search (\<lambda>s. many1 is_digit s (\<lambda>d r. lit w r (\<lambda>_. Some d)))"

definition re_jest_summary :: "jsstring \<Rightarrow> (jsstring \<times> jsstring \<times> jsstring) option" where
  \<comment> \<open>\<open>/Tests:\s+(\d+) passed,\s+(\d+) failed,\s+(\d+) total/\<close>\<close>
  [text_defs]: "re_jest_summary = search (\<lambda>s.
     lit (js ''Tests:'') s (\<lambda>r. many1 is_ws r (\<lambda>_ r. many1 is_digit r (\<lambda>p r.
     lit (js '' passed,'') r (\<lambda>r. many1 is_ws r (\<lambda>_ r. many1 is_digit r (\<lambda>f r.
     lit (js '' failed,'') r (\<lambda>r. many1 is_ws r (\<lambda>_ r. many1 is_digit r (\<lambda>t r.
     lit (js '' total'') r (\<lambda>_. Some (p, f, t))))))))))))"

definition re_marker_name :: "(nat \<Rightarrow> bool) \<Rightarrow> jsstring \<Rightarrow> jsstring option" where
  \<comment> \<open>\<open>/[M]\s+(.+)/\<close> for a class \<open>M\<close> of marker glyphs; the capture\<close>
  [text_defs]: "re_marker_name M = search (\<lambda>s.
     one_of M s (\<lambda>r. many1 is_ws r (\<lambda>_ r. many1 is_dot r (\<lambda>n _. Some n))))"

fun lit_alts :: "jsstring list \<Rightarrow> jsstring \<Rightarrow> (jsstring \<Rightarrow> jsstring \<Rightarrow> 'a option) \<Rightarrow> 'a option" where
  \<comment> \<open>\<open>(A|B|C)\<close> over literals: the alternatives in order; the continuation gets the one taken\<close>
  "lit_alts [] s k = None"
| "lit_alts (p # ps) s k =
     (case lit p s (k p) of Some r \<Rightarrow> Some r | None \<Rightarrow> lit_alts ps s k)"

definition canon :: "nat \<Rightarrow> nat" where
  \<comment> \<open>the i flag compares canonicalised characters; against an ASCII pattern only the
      ASCII letters change\<close>
  [text_defs]: "canon c = (if 97 \<le> c \<and> c \<le> 122 then c - 32 else c)"

definition includes_ci :: "jsstring \<Rightarrow> jsstring \<Rightarrow> bool" where
  \<comment> \<open>\<open>/W/i.test(s)\<close> for an ASCII literal \<open>W\<close>\<close>
  [text_defs]: "includes_ci s w = str_includes (map canon s) (map canon w)"

definition is_some :: "'a option \<Rightarrow> bool" where   \<comment> \<open>a match result is truthy unless it is null\<close>
  [text_defs]: "is_some m = (case m of None \<Rightarrow> False | Some _ \<Rightarrow> True)"

section \<open>Values and the canonical result\<close>

text \<open>
  The fields of a result are dynamically typed: the JSON-based unit parsers copy whatever
  the tool's report holds into them. A value is therefore a JavaScript value; the numbers
  the agents compute themselves are all integers (a JSON number with a fraction cannot be
  written in this model; the code only copies such a number or compares it with 0).
  \<open>parseInt\<close> of a very long digit run is rounded to a double by JavaScript; the model
  keeps the exact integer.
\<close>

datatype jsval =
    JUndefined
  | JNull
  | JBool bool
  | JNum int
  | JStr jsstring
  | JArr "jsval list"
  | JObj "(jsstring \<times> jsval) list"

fun truthy :: "jsval \<Rightarrow> bool" where
  "truthy JUndefined = False"
| "truthy JNull = False"
| "truthy (JBool b) = b"
| "truthy (JNum n) = (n \<noteq> 0)"
| "truthy (JStr s) = (s \<noteq> [])"
| "truthy (JArr _) = True"
| "truthy (JObj _) = True"

definition js_or :: "jsval \<Rightarrow> jsval \<Rightarrow> jsval" where   \<comment> \<open>\<open>a || b\<close>\<close>
  [text_defs]: "js_or a b = (if truthy a then a else b)"

datatype exn =
    SyntaxError                        \<comment> \<open>\<open>JSON.parse\<close> of a text that is not JSON\<close>
  | TypeError                          \<comment> \<open>a property of \<open>null\<close>/\<open>undefined\<close>, or a call of a non-function\<close>
  | FsError                            \<comment> \<open>\<open>readFileSync\<close> of a path that cannot be read\<close>
  | RepoPathMissing                    \<comment> \<open>"Repository path does not exist: ..."\<close>
  | NoTestCommand jsstring             \<comment> \<open>"Could not determine ... test command for project type: T"\<close>
  | CommandTimedOut nat jsstring       \<comment> \<open>"Command timed out after Nms: C"\<close>
  | CommandFailed "int option" jsstring \<comment> \<open>"Command failed with exit code N: C"; no code when a signal ended it\<close>
  | ProcessError jsstring              \<comment> \<open>the error object of the child's \<open>error\<close> event, or of \<open>exec\<close>\<close>
  | FailedToRun exn                    \<comment> \<open>"Failed to run ... tests: " followed by the message of the cause\<close>

text \<open>
  The result object. \<open>summary.duration\<close> (a wall-clock difference or a \<open>parseFloat\<close>
  product) and \<open>timestamp\<close> (the clock) are left out: no operation on them can throw,
  and nothing else reads them.
\<close>

record test_case =
  name :: jsval
  suite :: jsval
  status :: jsval
  duration :: jsval
  failureMessages :: jsval

record summary =
  total :: jsval
  passed :: jsval
  failed :: jsval
  skipped :: jsval

record test_result =
  success :: jsval
  summary :: summary
  details :: "test_case list"
  rawOutput :: jsstring
  rawError :: jsstring
  error :: "exn option"

definition standardResult :: "jsstring \<Rightarrow> jsstring \<Rightarrow> test_result" where
  \<comment> \<open>the object both dispatchers start from\<close>
  [text_defs]: "standardResult stdout stderr =
     \<lparr> success = JBool False,
       summary = \<lparr> total = JNum 0, passed = JNum 0, failed = JNum 0, skipped = JNum 0 \<rparr>,
       details = [],
       rawOutput = stdout,
       rawError = stderr,
       error = None \<rparr>"

definition text_case :: "jsstring \<Rightarrow> jsstring \<Rightarrow> jsstring \<Rightarrow> jsstring \<Rightarrow> test_case" where
  \<comment> \<open>the object literal the text parsers push: \<open>duration: 0\<close> and
      \<open>failureMessages: status === 'failed' ? [line] : []\<close>\<close>
  [text_defs]: "text_case nm su st line =
     \<lparr> name = JStr nm, suite = JStr su, status = JStr st, duration = JNum 0,
       failureMessages = JArr (if st = js ''failed'' then [JStr line] else []) \<rparr>"

definition joined :: "jsstring \<Rightarrow> jsstring \<Rightarrow> jsstring" where   \<comment> \<open>\<open>stdout + '\n' + stderr\<close>\<close>
  [text_defs]: "joined stdout stderr = stdout @ [10] @ stderr"

definition count_of :: "jsstring option \<Rightarrow> int" where   \<comment> \<open>\<open>m ? parseInt(m[1]) : 0\<close>\<close>
  [text_defs]: "count_of m = (case m of None \<Rightarrow> 0 | Some d \<Rightarrow> parseInt d)"

section \<open>The integration agent's parsers\<close>

subsection \<open>Symbol-decorated text: Cypress, Playwright, Jest, Mocha\<close>

definition alt :: "'a option \<Rightarrow> 'a option \<Rightarrow> 'a option" where   \<comment> \<open>\<open>A|B\<close> at one position\<close>
  [text_defs]: "alt a b = (case a of Some r \<Rightarrow> Some r | None \<Rightarrow> b)"

definition glyph_case :: "nat \<Rightarrow> nat \<Rightarrow> nat \<Rightarrow> jsstring \<Rightarrow> jsstring \<Rightarrow> test_case" where
  \<comment> \<open>the body of \<open>testLines.forEach\<close> in the four parsers: the status from the glyph on
      the line, the name from \<open>/[GFS]\s+(.+)/\<close> or else the trimmed line\<close>
  [text_defs]: "glyph_case g f s su line =
     (let st = (if str_includes line [g] then js ''passed''
                else if str_includes line [f] then js ''failed'' else js ''skipped'');
          nm = (case re_marker_name (\<lambda>c. c = g \<or> c = f \<or> c = s) line of
                  Some n \<Rightarrow> trim n
                | None \<Rightarrow> trim line)
      in text_case nm su st line)"

definition parseCypressResults :: "jsstring \<Rightarrow> jsstring \<Rightarrow> test_result \<Rightarrow> test_result" where
  \<comment> \<open>\<open>totalMatch\<close> is the result of \<open>/(\d+) passing|failing|pending/g\<close>, read as a truth value\<close>
  [text_defs]: "parseCypressResults stdout stderr r =
     (let output = joined stdout stderr;
          r1 = r\<lparr>success := JBool (if str_includes output (js ''(Run Finished)'') then False else True)\<rparr>;
          totalMatch = (is_some (re_count (js '' passing'') output)
                        \<or> str_includes output (js ''failing'')
                        \<or> str_includes output (js ''pending''));
          r2 = (if totalMatch then
                  (let p = count_of (re_count (js '' passing'') output);
                       f = count_of (re_count (js '' failing'') output);
                       s = count_of (re_count (js '' pending'') output)
                   in r1\<lparr>summary := (summary r1)\<lparr>passed := JNum p, failed := JNum f,
                                                   skipped := JNum s, total := JNum (p + f + s)\<rparr>\<rparr>)
                else r1);
          testLines = filter (\<lambda>line. str_includes line [check_mark] \<or> str_includes line [ballot_x]
                                       \<or> str_includes line (js ''- ''))
                             (split_lines output)
      in r2\<lparr>details := details r2 @ map (glyph_case check_mark ballot_x hyphen (js ''cypress'')) testLines\<rparr>)"

definition re_playwright_summary :: "jsstring \<Rightarrow> (jsstring \<times> jsstring option) option" where
  \<comment> \<open>\<open>/(\d+) passed(\s+\/(\s+)(\d+) failed)?/\<close>: captures 1 and 4\<close>
  [text_defs]: "re_playwright_summary = search (\<lambda>s.
     many1 is_digit s (\<lambda>p r. lit (js '' passed'') r (\<lambda>r.
       alt (many1 is_ws r (\<lambda>_ r. lit (js ''/'') r (\<lambda>r. many1 is_ws r (\<lambda>_ r.
              many1 is_digit r (\<lambda>f r. lit (js '' failed'') r (\<lambda>_. Some (p, Some f)))))))
           (Some (p, None)))))"

definition parsePlaywrightResults :: "jsstring \<Rightarrow> jsstring \<Rightarrow> test_result \<Rightarrow> test_result" where
  [text_defs]: "parsePlaywrightResults stdout stderr r =
     (let output = joined stdout stderr;
          r1 = r\<lparr>success := JBool (str_includes output (js ''passed'')
                                     \<and> (if str_includes output (js ''failed'') then False else True))\<rparr>;
          r2 = (case re_playwright_summary output of
                  Some (p, f4) \<Rightarrow>
                    (let p = parseInt p;
                         f = (case f4 of Some f \<Rightarrow> parseInt f | None \<Rightarrow> 0)
                     in r1\<lparr>summary := (summary r1)\<lparr>passed := JNum p, failed := JNum f,
                                                     total := JNum (p + f)\<rparr>\<rparr>)
                | None \<Rightarrow> r1);
          testLines = filter (\<lambda>line. str_includes line [check_mark] \<or> str_includes line [ballot_x]
                                       \<or> str_includes line (js ''- ''))
                             (split_lines output)
      in r2\<lparr>details := details r2 @ map (glyph_case check_mark ballot_x hyphen (js ''playwright'')) testLines\<rparr>)"

definition parseJestResults_I :: "jsstring \<Rightarrow> jsstring \<Rightarrow> test_result \<Rightarrow> test_result" where
  \<comment> \<open>\<open>IntegrationAgent._parseJestResults\<close>\<close>
  [text_defs]: "parseJestResults_I stdout stderr r =
     (let output = joined stdout stderr;
          r1 = r\<lparr>success := JBool (str_includes output (js ''PASS'')
                                     \<and> (if str_includes output (js ''FAIL'') then False else True))\<rparr>;
          r2 = (case re_jest_summary output of
                  Some (p, f, t) \<Rightarrow>
                    r1\<lparr>summary := (summary r1)\<lparr>passed := JNum (parseInt p),
                                                 failed := JNum (parseInt f),
                                                 total := JNum (parseInt t)\<rparr>\<rparr>
                | None \<Rightarrow> r1);
          r3 = (case re_count (js '' skipped'') output of
                  Some d \<Rightarrow> r2\<lparr>summary := (summary r2)\<lparr>skipped := JNum (parseInt d)\<rparr>\<rparr>
                | None \<Rightarrow> r2);
          testLines = filter (\<lambda>line. str_includes line [check_mark] \<or> str_includes line [mult_x]
                                       \<or> str_includes line [white_circle])
                             (split_lines output)
      in r3\<lparr>details := details r3 @ map (glyph_case check_mark mult_x white_circle (js ''jest'')) testLines\<rparr>)"

definition re_mocha_line :: "jsstring \<Rightarrow> unit option" where
  \<comment> \<open>\<open>/\s+G|\s+H|\s+-/\<close> with the glyphs U+2713 and U+2716\<close>
  [text_defs]: "re_mocha_line = search (\<lambda>s.
     alt (many1 is_ws s (\<lambda>_ r. lit [check_mark] r (\<lambda>_. Some ())))
    (alt (many1 is_ws s (\<lambda>_ r. lit [heavy_mult_x] r (\<lambda>_. Some ())))
         (many1 is_ws s (\<lambda>_ r. lit [hyphen] r (\<lambda>_. Some ())))))"

definition parseMochaResults_I :: "jsstring \<Rightarrow> jsstring \<Rightarrow> test_result \<Rightarrow> test_result" where
  \<comment> \<open>\<open>IntegrationAgent._parseMochaResults\<close>\<close>
  [text_defs]: "parseMochaResults_I stdout stderr r =
     (let output = joined stdout stderr;
          r1 = r\<lparr>success := JBool (if str_includes output (js ''failing'') then False else True)\<rparr>;
          p = count_of (re_count (js '' passing'') output);
          f = count_of (re_count (js '' failing'') output);
          s = count_of (re_count (js '' pending'') output);
          r2 = r1\<lparr>summary := (summary r1)\<lparr>passed := JNum p, failed := JNum f,
                                             skipped := JNum s, total := JNum (p + f + s)\<rparr>\<rparr>;
          testLines = filter (\<lambda>line. is_some (re_mocha_line line)) (split_lines output)
      in r2\<lparr>details := details r2 @ map (glyph_case check_mark heavy_mult_x hyphen (js ''mocha'')) testLines\<rparr>)"


subsection \<open>Summary-line text: Pytest, Behave, Java\<close>

definition re_collected :: "jsstring \<Rightarrow> jsstring option" where
  \<comment> \<open>\<open>/collected (\d+) items/\<close>\<close>
  [text_defs]: "re_collected = search (\<lambda>s.
     lit (js ''collected '') s (\<lambda>r. many1 is_digit r (\<lambda>n r. lit (js '' items'') r (\<lambda>_. Some n))))"

definition re_pytest_name :: "jsstring \<Rightarrow> jsstring option" where
  \<comment> \<open>\<open>/([\w\.]+)::\w+/\<close>: the whole match\<close>
  [text_defs]: "re_pytest_name = search (\<lambda>s.
     many1 is_word_dot s (\<lambda>a r. lit (js ''::'') r (\<lambda>r. many1 is_word r (\<lambda>b _.
       Some (a @ js ''::'' @ b)))))"

definition pytest_case :: "jsstring \<Rightarrow> test_case" where
  [text_defs]: "pytest_case line =
     (let st = (if str_includes line (js ''PASSED'') then js ''passed''
                else if str_includes line (js ''FAILED'') then js ''failed'' else js ''skipped'');
          nm = (case re_pytest_name line of Some m \<Rightarrow> m | None \<Rightarrow> trim line)
      in text_case nm (before_first (js ''::'') nm) st line)"

definition parsePytestResults :: "jsstring \<Rightarrow> jsstring \<Rightarrow> test_result \<Rightarrow> test_result" where
  \<comment> \<open>\<open>IntegrationAgent._parsePytestResults\<close>\<close>
  [text_defs]: "parsePytestResults stdout stderr r =
     (let output = joined stdout stderr;
          r1 = r\<lparr>summary := (summary r)\<lparr>total := JNum (count_of (re_collected output)),
                                          passed := JNum (count_of (re_count (js '' passed'') output)),
                                          failed := JNum (count_of (re_count (js '' failed'') output)),
                                          skipped := JNum (count_of (re_count (js '' skipped'') output))\<rparr>\<rparr>;
          r2 = r1\<lparr>success := JBool (failed (summary r1) = JNum 0)\<rparr>;
          testLines = filter (\<lambda>line. str_includes line (js ''PASSED'') \<or> str_includes line (js ''FAILED'')
                                       \<or> str_includes line (js ''SKIPPED''))
                             (split_lines output)
      in r2\<lparr>details := details r2 @ map pytest_case testLines\<rparr>)"

definition re_triple :: "jsstring \<Rightarrow> jsstring \<Rightarrow> jsstring \<Rightarrow> jsstring
                           \<Rightarrow> (jsstring \<times> jsstring \<times> jsstring) option" where
  \<comment> \<open>\<open>/(\d+)A(\d+)B(\d+)C/\<close> for literals \<open>A\<close>, \<open>B\<close>, \<open>C\<close>\<close>
  [text_defs]: "re_triple a b c = search (\<lambda>s.
     many1 is_digit s (\<lambda>x r. lit a r (\<lambda>r. many1 is_digit r (\<lambda>y r. lit b r (\<lambda>r.
     many1 is_digit r (\<lambda>z r. lit c r (\<lambda>_. Some (x, y, z))))))))"

definition behave_counts :: "(jsstring \<times> jsstring \<times> jsstring) \<Rightarrow> test_result \<Rightarrow> test_result" where
  \<comment> \<open>the four assignments both branches of the Behave parser make\<close>
  [text_defs]: "behave_counts m r =
     (case m of (p, f, s) \<Rightarrow>
        (let p = parseInt p; f = parseInt f; s = parseInt s
         in r\<lparr>summary := (summary r)\<lparr>passed := JNum p, failed := JNum f, skipped := JNum s,
                                       total := JNum (p + f + s)\<rparr>\<rparr>))"

definition parseBehaveResults :: "jsstring \<Rightarrow> jsstring \<Rightarrow> test_result \<Rightarrow> test_result" where
  [text_defs]: "parseBehaveResults stdout stderr r =
     (let output = joined stdout stderr;
          scenariosMatch = re_triple (js '' scenarios passed, '') (js '' failed, '') (js '' skipped'') output;
          stepsMatch = re_triple (js '' steps passed, '') (js '' failed, '') (js '' skipped'') output;
          r1 = (case scenariosMatch of
                  Some m \<Rightarrow> behave_counts m r
                | None \<Rightarrow> (case stepsMatch of Some m \<Rightarrow> behave_counts m r | None \<Rightarrow> r));
          r2 = r1\<lparr>success := JBool (failed (summary r1) = JNum 0)\<rparr>;
          featureLines = filter (\<lambda>line. starts_with line (js ''Feature:'')) (split_lines output);
          scenarioLines = filter (\<lambda>line. starts_with line (js ''  Scenario:'')) (split_lines output);
          r3 = r2\<lparr>details := details r2 @ map (\<lambda>line.
                  \<lparr> name = JStr (trim (remove_first (js ''Feature:'') line)),
                    suite = JStr (js ''features''), status = JStr (js ''info''),
                    duration = JNum 0, failureMessages = JArr [] \<rparr>) featureLines\<rparr>
      in r3\<lparr>details := details r3 @ map (\<lambda>line.
             (let nm = trim (remove_first (js ''Scenario:'') line);
                  st = (if str_includes output (js ''Scenario: '' @ nm @ [10] @ js ''    '' @ [ballot_x])
                        then js ''failed'' else js ''passed'')
              in text_case nm (js ''scenarios'') st line)) scenarioLines\<rparr>)"

definition re_java_summary :: "jsstring \<Rightarrow> (jsstring \<times> jsstring \<times> jsstring \<times> jsstring) option" where
  \<comment> \<open>\<open>/Tests run: (\d+), Failures: (\d+), Errors: (\d+), Skipped: (\d+)/\<close>\<close>
  [text_defs]: "re_java_summary = search (\<lambda>s.
     lit (js ''Tests run: '') s (\<lambda>r. many1 is_digit r (\<lambda>t r.
     lit (js '', Failures: '') r (\<lambda>r. many1 is_digit r (\<lambda>f r.
     lit (js '', Errors: '') r (\<lambda>r. many1 is_digit r (\<lambda>e r.
     lit (js '', Skipped: '') r (\<lambda>r. many1 is_digit r (\<lambda>k _. Some (t, f, e, k))))))))))"

definition java_counts :: "jsstring \<Rightarrow> test_result \<Rightarrow> test_result" where
  \<comment> \<open>the first block of both Java parsers; \<open>passed\<close> is what is left of \<open>total\<close>\<close>
  [text_defs]: "java_counts output r =
     (case re_java_summary output of
        Some (t, f, e, k) \<Rightarrow>
          (let t = parseInt t; fl = parseInt f + parseInt e; k = parseInt k
           in r\<lparr>summary := (summary r)\<lparr>total := JNum t, failed := JNum fl, skipped := JNum k,
                                         passed := JNum (t - fl - k)\<rparr>\<rparr>)
      | None \<Rightarrow> r)"

definition re_java_name :: "jsstring \<Rightarrow> jsstring option" where
  \<comment> \<open>\<open>/Test ([\w\.]+)/\<close>\<close>
  [text_defs]: "re_java_name = search (\<lambda>s. lit (js ''Test '') s (\<lambda>r. many1 is_word_dot r (\<lambda>n _. Some n)))"

definition parseJavaResults_I :: "jsstring \<Rightarrow> jsstring \<Rightarrow> test_result \<Rightarrow> test_result" where
  \<comment> \<open>\<open>IntegrationAgent._parseJavaResults\<close>\<close>
  [text_defs]: "parseJavaResults_I stdout stderr r =
     (let output = joined stdout stderr;
          r1 = java_counts output r;
          r2 = r1\<lparr>success := JBool (failed (summary r1) = JNum 0)\<rparr>;
          testLines = filter (\<lambda>line. str_includes line (js ''Test '')
                                \<and> (str_includes line (js '' PASSED'') \<or> str_includes line (js '' FAILED'')
                                   \<or> str_includes line (js '' SKIPPED'')))
                             (split_lines output)
      in r2\<lparr>details := details r2 @ map (\<lambda>line.
             (let st = (if str_includes line (js '' PASSED'') then js ''passed''
                        else if str_includes line (js '' FAILED'') then js ''failed'' else js ''skipped'');
                  nm = (case re_java_name line of Some n \<Rightarrow> n | None \<Rightarrow> trim line)
              in text_case nm (before_first (js ''.'') nm) st line)) testLines\<rparr>)"

subsection \<open>Docker Compose and the generic fallback\<close>

definition re_container :: "jsstring \<Rightarrow> jsstring option" where
  \<comment> \<open>\<open>/^(\w+)\s+\|/\<close>, anchored at the start of the line\<close>
  [text_defs]: "re_container s = many1 is_word s (\<lambda>c r. many1 is_ws r (\<lambda>_ r. lit (js ''|'') r (\<lambda>_. Some c)))"

fun set_add :: "'a list \<Rightarrow> 'a \<Rightarrow> 'a list" where   \<comment> \<open>\<open>Set.add\<close>: insertion order, no duplicate\<close>
  "set_add [] x = [x]"
| "set_add (y # ys) x = (if y = x then y # ys else y # set_add ys x)"

definition parseDockerComposeResults :: "jsstring \<Rightarrow> jsstring \<Rightarrow> test_result \<Rightarrow> test_result" where
  [text_defs]: "parseDockerComposeResults stdout stderr r =
     (let output = joined stdout stderr;
          ok = (if str_includes output (js ''exited with code'')
                then str_includes output (js ''exited with code 0'') else True);
          r1 = r\<lparr>success := JBool ok\<rparr>;
          testLines = filter (\<lambda>line. (str_includes line (js ''PASS'') \<or> str_includes line (js ''FAIL'')
                                        \<or> str_includes line (js ''ERROR''))
                                \<and> (if str_includes line (js ''docker'') then False else True)
                                \<and> (if str_includes line (js ''compose'') then False else True))
                             (split_lines output);
          p = int (length (filter (\<lambda>line. str_includes line (js ''PASS'')
                                    \<and> (if str_includes line (js ''FAIL'') then False else True)) testLines));
          f = int (length (filter (\<lambda>line. str_includes line (js ''FAIL'')
                                    \<or> str_includes line (js ''ERROR'')) testLines));
          r2 = r1\<lparr>summary := (summary r1)\<lparr>total := JNum (if testLines = [] then 1 else int (length testLines)),
                                             passed := JNum p, failed := JNum f\<rparr>\<rparr>;
          r3 = (if p = 0 \<and> f = 0
                then r2\<lparr>summary := (summary r2)\<lparr>total := JNum 1,
                                                  passed := JNum (if ok then 1 else 0),
                                                  failed := JNum (if ok then 0 else 1)\<rparr>\<rparr>
                else r2);
          containerLogs = filter (\<lambda>line. is_some (re_container line)) (split_lines output);
          containers = foldl (\<lambda>cs line. case re_container line of Some c \<Rightarrow> set_add cs c | None \<Rightarrow> cs)
                             [] containerLogs
      in r3\<lparr>details := details r3 @ map (\<lambda>container.
             \<lparr> name = JStr (js ''Container: '' @ container),
               suite = JStr (js ''docker-compose''),
               status = JStr (if ok then js ''passed'' else js ''failed''),
               duration = JNum 0,
               failureMessages = JArr (if ok then []
                                       else [JStr (js ''Container '' @ container @ js '' failed'')]) \<rparr>)
           containers\<rparr>)"

definition generic_finish :: "bool \<Rightarrow> jsstring list \<Rightarrow> test_result \<Rightarrow> test_result" where
  \<comment> \<open>what both generic parsers do once the test-like lines are known: one case per line,
      \<open>total = testCount || 1\<close>, and the counts from the overall success\<close>
  [text_defs]: "generic_finish ok testLines r =
     (let r1 = r\<lparr>success := JBool ok\<rparr>;
          r2 = r1\<lparr>details := details r1 @ map (\<lambda>line.
                  text_case (trim line) (js ''unknown'')
                    (if str_includes line (js ''pass'') then js ''passed'' else js ''failed'') line)
                  testLines\<rparr>;
          testCount = int (length testLines);
          t = (if testCount = 0 then 1 else testCount);
          r3 = r2\<lparr>summary := (summary r2)\<lparr>total := JNum t\<rparr>\<rparr>
      in if ok then r3\<lparr>summary := (summary r3)\<lparr>passed := JNum t\<rparr>\<rparr>
         else r3\<lparr>summary := (summary r3)\<lparr>failed := JNum 1, passed := JNum (t - 1)\<rparr>\<rparr>)"

definition generic_success :: "jsstring \<Rightarrow> jsstring \<Rightarrow> bool" where
  \<comment> \<open>\<open>!(output.includes('FAIL') || ... || stderr.length > 0)\<close>\<close>
  [text_defs]: "generic_success output stderr =
     (if str_includes output (js ''FAIL'') \<or> str_includes output (js ''ERROR'')
         \<or> str_includes output (js ''FAILURE'') \<or> str_includes output (js ''Exception'')
         \<or> 0 < length stderr
      then False else True)"

definition has_outcome :: "jsstring \<Rightarrow> bool" where
  [text_defs]: "has_outcome line = (str_includes line (js ''pass'') \<or> str_includes line (js ''fail'')
                       \<or> str_includes line (js ''error''))"

definition parseGenericResults_I :: "jsstring \<Rightarrow> jsstring \<Rightarrow> test_result \<Rightarrow> test_result" where
  \<comment> \<open>\<open>IntegrationAgent._parseGenericResults\<close>; its pattern is
      \<open>/test|spec|should|it |scenario/i\<close>\<close>
  [text_defs]: "parseGenericResults_I stdout stderr r =
     (let output = joined stdout stderr
      in generic_finish (generic_success output stderr)
           (filter (\<lambda>line. (includes_ci line (js ''test'') \<or> includes_ci line (js ''spec'')
                             \<or> includes_ci line (js ''should'') \<or> includes_ci line (js ''it '')
                             \<or> includes_ci line (js ''scenario''))
                            \<and> has_outcome line)
                   (split_lines output))
           r)"

subsection \<open>The dispatcher\<close>

definition catch :: "(exn + test_result) \<Rightarrow> test_result \<Rightarrow> exn + test_result" where
  \<comment> \<open>\<open>try { return body } catch (error) { standardResult.error = error.message;
      return standardResult }\<close>; the handler sees the object as the body left it\<close>
  [text_defs]: "catch body r = (case body of Inr res \<Rightarrow> Inr res | Inl e \<Rightarrow> Inr (r\<lparr>error := Some e\<rparr>))"

definition parseIntegrationTestResults :: "jsstring \<Rightarrow> jsstring \<Rightarrow> jsstring \<Rightarrow> exn + test_result" where
  [text_defs]: "parseIntegrationTestResults stdout stderr projectType =
     (let r = standardResult stdout stderr
      in catch (Inr
          (if projectType = js ''cypress'' then parseCypressResults stdout stderr r
           else if projectType = js ''playwright'' then parsePlaywrightResults stdout stderr r
           else if projectType = js ''jest-dom'' \<or> projectType = js ''jest''
             then parseJestResults_I stdout stderr r
           else if projectType = js ''mocha-supertest'' then parseMochaResults_I stdout stderr r
           else if projectType = js ''selenium-python'' \<or> projectType = js ''pytest''
             then parsePytestResults stdout stderr r
           else if projectType = js ''behave'' then parseBehaveResults stdout stderr r
           else if projectType = js ''selenium-java'' \<or> projectType = js ''cucumber-java''
                   \<or> projectType = js ''rest-assured'' \<or> projectType = js ''maven''
                   \<or> projectType = js ''gradle''
             then parseJavaResults_I stdout stderr r
           else if projectType = js ''docker-compose'' then parseDockerComposeResults stdout stderr r
           else parseGenericResults_I stdout stderr r)) r)"

section \<open>The unit agent's parsers\<close>

subsection \<open>Text formats: Python, Java, Rust, Go and the generic fallback\<close>

definition parsePythonResults :: "jsstring \<Rightarrow> jsstring \<Rightarrow> test_result \<Rightarrow> test_result" where
  \<comment> \<open>\<open>UnitTestAgent._parsePythonResults\<close>\<close>
  [text_defs]: "parsePythonResults stdout stderr r =
     (let output = joined stdout stderr;
          r1 = r\<lparr>summary := (summary r)\<lparr>total := JNum (count_of (re_collected output)),
                                          passed := JNum (count_of (re_count (js '' passed'') output)),
                                          failed := JNum (count_of (re_count (js '' failed'') output)),
                                          skipped := JNum (count_of (re_count (js '' skipped'') output))\<rparr>\<rparr>;
          r2 = r1\<lparr>success := JBool (failed (summary r1) = JNum 0)\<rparr>;
          testLines = filter (\<lambda>line. str_includes line (js ''PASSED'') \<or> str_includes line (js ''FAILED'')
                                       \<or> str_includes line (js ''SKIPPED''))
                             (split_lines output)
      in r2\<lparr>details := details r2 @ map pytest_case testLines\<rparr>)"

definition parseJavaResults_U :: "jsstring \<Rightarrow> jsstring \<Rightarrow> test_result \<Rightarrow> test_result" where
  \<comment> \<open>\<open>UnitTestAgent._parseJavaResults\<close>: the counts and the success flag, no cases\<close>
  [text_defs]: "parseJavaResults_U stdout stderr r =
     (let output = joined stdout stderr;
          r1 = java_counts output r
      in r1\<lparr>success := JBool (failed (summary r1) = JNum 0)\<rparr>)"

definition re_rust_summary :: "jsstring \<Rightarrow> (jsstring \<times> jsstring \<times> jsstring \<times> jsstring) option" where
  \<comment> \<open>\<open>/test result: (\w+). (\d+) passed; (\d+) failed; (\d+) ignored/\<close>\<close>
  [text_defs]: "re_rust_summary = search (\<lambda>s.
     lit (js ''test result: '') s (\<lambda>r. many1 is_word r (\<lambda>w r. one_of is_dot r (\<lambda>r.
     lit (js '' '') r (\<lambda>r. many1 is_digit r (\<lambda>p r.
     lit (js '' passed; '') r (\<lambda>r. many1 is_digit r (\<lambda>f r.
     lit (js '' failed; '') r (\<lambda>r. many1 is_digit r (\<lambda>i r.
     lit (js '' ignored'') r (\<lambda>_. Some (w, p, f, i))))))))))))"

definition re_rust_name :: "jsstring \<Rightarrow> jsstring option" where
  \<comment> \<open>\<open>/test ([\w:]+)/\<close>\<close>
  [text_defs]: "re_rust_name = search (\<lambda>s. lit (js ''test '') s (\<lambda>r. many1 is_word_colon r (\<lambda>n _. Some n)))"

definition parseRustResults :: "jsstring \<Rightarrow> jsstring \<Rightarrow> test_result \<Rightarrow> test_result" where
  [text_defs]: "parseRustResults stdout stderr r =
     (let output = joined stdout stderr;
          r1 = (case re_rust_summary output of
                  Some (w, p, f, i) \<Rightarrow>
                    (let p = parseInt p; f = parseInt f; i = parseInt i
                     in r\<lparr>success := JBool (w = js ''ok''),
                          summary := (summary r)\<lparr>passed := JNum p, failed := JNum f, skipped := JNum i,
                                                  total := JNum (p + f + i)\<rparr>\<rparr>)
                | None \<Rightarrow> r);
          testLines = filter (\<lambda>line. str_includes line (js ''test '')
                                \<and> (str_includes line (js '' ... ok'') \<or> str_includes line (js '' ... FAILED'')
                                   \<or> str_includes line (js '' ... ignored'')))
                             (split_lines output)
      in r1\<lparr>details := details r1 @ map (\<lambda>line.
             (let st = (if str_includes line (js '' ... ok'') then js ''passed''
                        else if str_includes line (js '' ... FAILED'') then js ''failed'' else js ''skipped'');
                  nm = (case re_rust_name line of Some n \<Rightarrow> n | None \<Rightarrow> trim line)
              in text_case nm (before_first (js ''::'') nm) st line)) testLines\<rparr>)"

definition re_go_line :: "jsstring \<Rightarrow> unit option" where
  \<comment> \<open>\<open>/--- (PASS|FAIL|SKIP): Test\w+/\<close>\<close>
  [text_defs]: "re_go_line = search (\<lambda>s.
     lit (js ''--- '') s (\<lambda>r. lit_alts [js ''PASS'', js ''FAIL'', js ''SKIP''] r (\<lambda>_ r.
     lit (js '': Test'') r (\<lambda>r. many1 is_word r (\<lambda>_ _. Some ())))))"

definition re_go_name :: "jsstring \<Rightarrow> jsstring option" where
  \<comment> \<open>\<open>/--- (PASS|FAIL|SKIP): (\w+)/\<close>: capture 2\<close>
  [text_defs]: "re_go_name = search (\<lambda>s.
     lit (js ''--- '') s (\<lambda>r. lit_alts [js ''PASS'', js ''FAIL'', js ''SKIP''] r (\<lambda>_ r.
     lit (js '': '') r (\<lambda>r. many1 is_word r (\<lambda>n _. Some n)))))"

definition parseGoResults :: "jsstring \<Rightarrow> jsstring \<Rightarrow> test_result \<Rightarrow> test_result" where
  \<comment> \<open>\<open>success = passedMatch && !failedMatch\<close> is \<open>null\<close> when there is no \<open>PASS\<close>\<close>
  [text_defs]: "parseGoResults stdout stderr r =
     (let output = joined stdout stderr;
          r1 = r\<lparr>success := (if str_includes output (js ''PASS'')
                              then JBool (if str_includes output (js ''FAIL'') then False else True)
                              else JNull)\<rparr>;
          testLines = filter (\<lambda>line. is_some (re_go_line line)) (split_lines output);
          r2 = r1\<lparr>summary := (summary r1)\<lparr>
                  total := JNum (int (length testLines)),
                  passed := JNum (int (length (filter (\<lambda>line. str_includes line (js ''--- PASS'')) testLines))),
                  failed := JNum (int (length (filter (\<lambda>line. str_includes line (js ''--- FAIL'')) testLines))),
                  skipped := JNum (int (length (filter (\<lambda>line. str_includes line (js ''--- SKIP'')) testLines)))\<rparr>\<rparr>
      in r2\<lparr>details := details r2 @ map (\<lambda>line.
             (let st = (if str_includes line (js ''--- PASS'') then js ''passed''
                        else if str_includes line (js ''--- FAIL'') then js ''failed'' else js ''skipped'');
                  nm = (case re_go_name line of Some n \<Rightarrow> n | None \<Rightarrow> trim line)
              in text_case nm (js ''go_tests'') st line)) testLines\<rparr>)"

definition parseGenericResults_U :: "jsstring \<Rightarrow> jsstring \<Rightarrow> test_result \<Rightarrow> test_result" where
  \<comment> \<open>\<open>UnitTestAgent._parseGenericResults\<close>; its pattern is \<open>/test|spec|should|it /i\<close>\<close>
  [text_defs]: "parseGenericResults_U stdout stderr r =
     (let output = joined stdout stderr
      in generic_finish (generic_success output stderr)
           (filter (\<lambda>line. (includes_ci line (js ''test'') \<or> includes_ci line (js ''spec'')
                             \<or> includes_ci line (js ''should'') \<or> includes_ci line (js ''it ''))
                            \<and> has_outcome line)
                   (split_lines output))
           r)"

subsection \<open>JSON formats: Jest and Mocha\<close>

text \<open>
  \<open>JSON.parse\<close> and the conversion of a value to a string belong to the language, not to
  the repository: they are parameters. \<open>json_parse s\<close> is \<open>None\<close> when \<open>JSON.parse(s)\<close>
  throws; \<open>to_string v\<close> is \<open>None\<close> when converting \<open>v\<close> throws.

  Reading a property of \<open>null\<close> or \<open>undefined\<close> throws; reading one of any other value
  gives the member, or \<open>undefined\<close>. (The names the agents read, such as \<open>testResults\<close>
  or \<open>title\<close>, are not built-in properties of strings, numbers or arrays.) Every
  statement of the two parsers is inside \<open>try\<close>, and the handler calls the generic
  parser on the object as the statements before the throw have left it.
\<close>

fun get_prop :: "jsval \<Rightarrow> jsstring \<Rightarrow> exn + jsval" where
  "get_prop JUndefined k = Inl TypeError"
| "get_prop JNull k = Inl TypeError"
| "get_prop (JObj kvs) k = Inr (case map_of kvs k of None \<Rightarrow> JUndefined | Some v \<Rightarrow> v)"
| "get_prop v k = Inr JUndefined"

definition field :: "jsval \<Rightarrow> jsstring \<Rightarrow> jsval" where
  \<comment> \<open>a read that cannot throw, the object being known not to be \<open>null\<close> or \<open>undefined\<close>\<close>
  [text_defs]: "field v k = (case get_prop v k of Inr x \<Rightarrow> x | Inl _ \<Rightarrow> JUndefined)"

fun jest_tests :: "jsval \<Rightarrow> jsval list \<Rightarrow> test_result \<Rightarrow> test_result \<times> exn option" where
  \<comment> \<open>\<open>suite.assertionResults.forEach(test => details.push({...}))\<close>\<close>
  "jest_tests suite0 [] r = (r, None)"
| "jest_tests suite0 (t # ts) r =
     (case get_prop t (js ''title'') of
        Inl e \<Rightarrow> (r, Some e)
      | Inr title \<Rightarrow>
          jest_tests suite0 ts
            (r\<lparr>details := details r @
                 [\<lparr> name = title, suite = field suite0 (js ''name''),
                    status = field t (js ''status''),
                    duration = js_or (field t (js ''duration'')) (JNum 0),
                    failureMessages = js_or (field t (js ''failureMessages'')) (JArr []) \<rparr>]\<rparr>))"

fun jest_suites :: "jsval list \<Rightarrow> test_result \<Rightarrow> test_result \<times> exn option" where
  \<comment> \<open>\<open>jestResults.testResults.forEach(suite => ...)\<close>\<close>
  "jest_suites [] r = (r, None)"
| "jest_suites (s # ss) r =
     (case get_prop s (js ''assertionResults'') of
        Inl e \<Rightarrow> (r, Some e)
      | Inr (JArr tests) \<Rightarrow>
          (case jest_tests s tests r of
             (r', None) \<Rightarrow> jest_suites ss r'
           | (r', Some e) \<Rightarrow> (r', Some e))
      | Inr _ \<Rightarrow> (r, Some TypeError))"

definition jest_try :: "(jsstring \<Rightarrow> jsval option) \<Rightarrow> jsstring \<Rightarrow> test_result
                          \<Rightarrow> test_result \<times> exn option" where
  \<comment> \<open>the \<open>try\<close> block of \<open>UnitTestAgent._parseJestResults\<close>: the object when the block
      ends, and the exception that ended it, if one did\<close>
  [text_defs]: "jest_try json_parse stdout r =
     (case json_parse stdout of
        None \<Rightarrow> (r, Some SyntaxError)
      | Some jestResults \<Rightarrow>
          (case get_prop jestResults (js ''success'') of
             Inl e \<Rightarrow> (r, Some e)
           | Inr s \<Rightarrow>
               (let r1 = r\<lparr>success := s,
                            summary := (summary r)\<lparr>total := field jestResults (js ''numTotalTests''),
                                                    passed := field jestResults (js ''numPassedTests''),
                                                    failed := field jestResults (js ''numFailedTests''),
                                                    skipped := field jestResults (js ''numPendingTests'')\<rparr>\<rparr>
                in case field jestResults (js ''testResults'') of
                     JArr suites \<Rightarrow> jest_suites suites r1
                   | _ \<Rightarrow> (r1, Some TypeError))))"

definition parseJestResults_U :: "(jsstring \<Rightarrow> jsval option) \<Rightarrow> jsstring \<Rightarrow> test_result
                                    \<Rightarrow> exn + test_result" where
  \<comment> \<open>\<open>UnitTestAgent._parseJestResults\<close>\<close>
  [text_defs]: "parseJestResults_U json_parse stdout r =
     (case jest_try json_parse stdout r of
        (r', None) \<Rightarrow> Inr r'
      | (r', Some e) \<Rightarrow> Inr (parseGenericResults_U stdout [] r'))"

fun mocha_tests :: "(jsval \<Rightarrow> jsstring option) \<Rightarrow> jsval list \<Rightarrow> jsstring \<Rightarrow> test_result
                      \<Rightarrow> test_result \<times> exn option" where
  \<comment> \<open>\<open>tests.forEach(test => details.push({...}))\<close>; \<open>test.fullTitle.replace(test.title, '')\<close>
      needs a string to call \<open>replace\<close> on, and converts a pattern that is not a string\<close>
  "mocha_tests to_string [] st r = (r, None)"
| "mocha_tests to_string (t # ts) st r =
     (case get_prop t (js ''title'') of
        Inl e \<Rightarrow> (r, Some e)
      | Inr title \<Rightarrow>
          (case field t (js ''fullTitle'') of
             JStr fullTitle \<Rightarrow>
               (case (case title of JStr p \<Rightarrow> Some p | _ \<Rightarrow> to_string title) of
                  None \<Rightarrow> (r, Some TypeError)
                | Some pat \<Rightarrow>
                    mocha_tests to_string ts st
                      (r\<lparr>details := details r @
                           [\<lparr> name = title,
                              suite = JStr (trim (remove_first pat fullTitle)),
                              status = JStr st,
                              duration = js_or (field t (js ''duration'')) (JNum 0),
                              failureMessages =
                                (if truthy (field t (js ''err''))
                                 then JArr [field (field t (js ''err'')) (js ''message'')]
                                 else JArr []) \<rparr>]\<rparr>))
           | _ \<Rightarrow> (r, Some TypeError)))"

definition processMochaTests :: "(jsval \<Rightarrow> jsstring option) \<Rightarrow> jsval \<Rightarrow> jsstring \<Rightarrow> test_result
                                   \<Rightarrow> test_result \<times> exn option" where
  \<comment> \<open>\<open>if (!Array.isArray(tests)) return;\<close> comes first\<close>
  [text_defs]: "processMochaTests to_string tests st r =
     (case tests of JArr ts \<Rightarrow> mocha_tests to_string ts st r | _ \<Rightarrow> (r, None))"

definition mocha_try :: "(jsstring \<Rightarrow> jsval option) \<Rightarrow> (jsval \<Rightarrow> jsstring option) \<Rightarrow> jsstring
                           \<Rightarrow> test_result \<Rightarrow> test_result \<times> exn option" where
  \<comment> \<open>the \<open>try\<close> block of \<open>UnitTestAgent._parseMochaResults\<close>\<close>
  [text_defs]: "mocha_try json_parse to_string stdout r =
     (case json_parse stdout of
        None \<Rightarrow> (r, Some SyntaxError)
      | Some mochaResults \<Rightarrow>
          (case get_prop mochaResults (js ''stats'') of
             Inl e \<Rightarrow> (r, Some e)
           | Inr stats \<Rightarrow>
               (case get_prop stats (js ''failures'') of
                  Inl e \<Rightarrow> (r, Some e)
                | Inr failures \<Rightarrow>
                    (let r1 = r\<lparr>success := JBool (failures = JNum 0),
                                 summary := (summary r)\<lparr>total := field stats (js ''tests''),
                                                         passed := field stats (js ''passes''),
                                                         failed := failures,
                                                         skipped := field stats (js ''pending'')\<rparr>\<rparr>
                     in case processMochaTests to_string (field mochaResults (js ''passes'')) (js ''passed'') r1 of
                          (r2, Some e) \<Rightarrow> (r2, Some e)
                        | (r2, None) \<Rightarrow>
                            (case processMochaTests to_string (field mochaResults (js ''failures'')) (js ''failed'') r2 of
                               (r3, Some e) \<Rightarrow> (r3, Some e)
                             | (r3, None) \<Rightarrow>
                                 processMochaTests to_string (field mochaResults (js ''pending'')) (js ''skipped'') r3)))))"

definition parseMochaResults_U :: "(jsstring \<Rightarrow> jsval option) \<Rightarrow> (jsval \<Rightarrow> jsstring option)
                                     \<Rightarrow> jsstring \<Rightarrow> test_result \<Rightarrow> exn + test_result" where
  \<comment> \<open>\<open>UnitTestAgent._parseMochaResults\<close>\<close>
  [text_defs]: "parseMochaResults_U json_parse to_string stdout r =
     (case mocha_try json_parse to_string stdout r of
        (r', None) \<Rightarrow> Inr r'
      | (r', Some e) \<Rightarrow> Inr (parseGenericResults_U stdout [] r'))"

subsection \<open>The dispatcher\<close>

definition empty_result :: "test_result \<Rightarrow> test_result" where
  \<comment> \<open>the empty-repository branch of \<open>_parseTestResults\<close>, before its \<open>try\<close>\<close>
  [text_defs]: "empty_result r =
     r\<lparr>success := JBool True,
       summary := (summary r)\<lparr>skipped := JNum 1, total := JNum 1\<rparr>,
       details := details r @
         [\<lparr> name = JStr (js ''repository-empty-check''), suite = JStr (js ''system''),
            status = JStr (js ''skipped''), duration = JNum 0,
            failureMessages = JArr [JStr (js ''Repository is empty, no tests to run'')] \<rparr>]\<rparr>"

definition parseTestResults :: "(jsstring \<Rightarrow> jsval option) \<Rightarrow> (jsval \<Rightarrow> jsstring option)
                                  \<Rightarrow> jsstring \<Rightarrow> jsstring \<Rightarrow> jsstring \<Rightarrow> exn + test_result" where
  \<comment> \<open>\<open>UnitTestAgent._parseTestResults\<close>\<close>
  [text_defs]: "parseTestResults json_parse to_string stdout stderr projectType =
     (let r = standardResult stdout stderr
      in if projectType = js ''empty'' then Inr (empty_result r)
         else catch
           (if projectType = js ''jest'' then parseJestResults_U json_parse stdout r
            else if projectType = js ''mocha'' then parseMochaResults_U json_parse to_string stdout r
            else if projectType = js ''pytest'' \<or> projectType = js ''python''
              then Inr (parsePythonResults stdout stderr r)
            else if projectType = js ''maven'' \<or> projectType = js ''gradle''
              then Inr (parseJavaResults_U stdout stderr r)
            else if projectType = js ''rust'' then Inr (parseRustResults stdout stderr r)
            else if projectType = js ''go'' then Inr (parseGoResults stdout stderr r)
            else Inr (parseGenericResults_U stdout stderr r)) r)"

section \<open>The supervised process runner\<close>

text \<open>
  \<open>IntegrationAgent._executeCommand\<close> returns a promise and registers handlers on the
  child process. What the child does is the environment: a finite sequence of events, in
  the order Node delivers them. The handlers are run over that sequence. A promise
  settles once: \<open>resolve\<close> and \<open>reject\<close> after the first one change nothing. A sequence
  that never settles it leaves the call pending, which is the result \<open>None\<close>.
\<close>

datatype proc_event =
    StdoutData jsstring       \<comment> \<open>\<open>proc.stdout.on('data')\<close>\<close>
  | StderrData jsstring       \<comment> \<open>\<open>proc.stderr.on('data')\<close>\<close>
  | Close "int option"        \<comment> \<open>\<open>proc.on('close')\<close> with the exit code, \<open>null\<close> after a signal\<close>
  | ProcError jsstring        \<comment> \<open>\<open>proc.on('error')\<close> with the error, here its message\<close>
  | TimerFired                \<comment> \<open>the callback of \<open>setTimeout\<close> is due\<close>

datatype log_entry =
    LogText jsstring          \<comment> \<open>a chunk as written to the log stream\<close>
  | LogExit "int option"      \<comment> \<open>"Process exited with code N"\<close>
  | LogProcError jsstring     \<comment> \<open>"Process error: ..."\<close>

record exec_state =
  stdout_buf :: jsstring                                  \<comment> \<open>\<open>let stdout = ''\<close>\<close>
  stderr_buf :: jsstring                                  \<comment> \<open>\<open>let stderr = ''\<close>\<close>
  settled :: "(exn + (jsstring \<times> jsstring)) option"   \<comment> \<open>the promise\<close>
  timer :: bool                                           \<comment> \<open>the timeout is set and not yet cleared or run\<close>
  killed :: bool                                          \<comment> \<open>\<open>proc.kill()\<close> was called\<close>
  logged :: "log_entry list"                              \<comment> \<open>what went to \<open>logStream\<close>\<close>

definition settle :: "(exn + (jsstring \<times> jsstring)) \<Rightarrow> exec_state \<Rightarrow> exec_state" where
  [text_defs]: "settle v st = (case settled st of None \<Rightarrow> st\<lparr>settled := Some v\<rparr> | Some _ \<Rightarrow> st)"

fun on_event :: "jsstring \<Rightarrow> nat \<Rightarrow> exec_state \<Rightarrow> proc_event \<Rightarrow> exec_state" where
  "on_event command timeout st (StdoutData str) =
     st\<lparr>stdout_buf := stdout_buf st @ str, logged := logged st @ [LogText str]\<rparr>"
| "on_event command timeout st (StderrData str) =
     st\<lparr>stderr_buf := stderr_buf st @ str, logged := logged st @ [LogText (js ''[ERROR] '' @ str)]\<rparr>"
| "on_event command timeout st TimerFired =
     (if timer st
      then settle (Inl (CommandTimedOut timeout command)) (st\<lparr>timer := False, killed := True\<rparr>)
      else st)"
| "on_event command timeout st (Close code) =
     (let st1 = st\<lparr>timer := False, logged := logged st @ [LogExit code]\<rparr>
      in if code = Some 0 then settle (Inr (stdout_buf st1, stderr_buf st1)) st1
         else settle (Inl (CommandFailed code command)) st1)"
| "on_event command timeout st (ProcError msg) =
     (let st1 = st\<lparr>timer := False, logged := logged st @ [LogProcError msg]\<rparr>
      in settle (Inl (ProcessError msg)) st1)"

definition exec_start :: "nat \<Rightarrow> exec_state" where
  \<comment> \<open>after \<open>spawn\<close>: empty buffers, and the timer set when \<open>options.timeout\<close> is truthy\<close>
  [text_defs]: "exec_start timeout =
     \<lparr> stdout_buf = [], stderr_buf = [], settled = None, timer = (0 < timeout),
       killed = False, logged = [] \<rparr>"

definition run_events :: "jsstring \<Rightarrow> nat \<Rightarrow> proc_event list \<Rightarrow> exec_state" where
  [text_defs]: "run_events command timeout events = foldl (on_event command timeout) (exec_start timeout) events"

definition executeCommand :: "jsstring \<Rightarrow> nat \<Rightarrow> proc_event list
                                \<Rightarrow> (exn + (jsstring \<times> jsstring)) option" where
  \<comment> \<open>what \<open>await this._executeCommand(command, options)\<close> gives: the resolved pair, the
      rejection, or nothing\<close>
  [text_defs]: "executeCommand command timeout events = settled (run_events command timeout events)"

section \<open>Project-type detection and command selection\<close>

text \<open>
  The file system is read through four calls, which are the model of a repository:
  \<open>fs.existsSync(repoPath)\<close>, \<open>fs.promises.readdir(repoPath)\<close> (\<open>None\<close> when it rejects),
  \<open>fs.existsSync(path.join(repoPath, p))\<close> and \<open>fs.readFileSync(path.join(repoPath, p),
  'utf8')\<close> (\<open>None\<close> when it throws).
\<close>

record repo =
  path_ok :: bool
  listing :: "jsstring list option"
  has :: "jsstring \<Rightarrow> bool"
  content :: "jsstring \<Rightarrow> jsstring option"

definition read_json :: "(jsstring \<Rightarrow> jsval option) \<Rightarrow> repo \<Rightarrow> jsstring \<Rightarrow> exn + jsval" where
  \<comment> \<open>\<open>JSON.parse(fs.readFileSync(path.join(repoPath, p), 'utf8'))\<close>\<close>
  [text_defs]: "read_json json_parse rp p =
     (case content rp p of
        None \<Rightarrow> Inl FsError
      | Some txt \<Rightarrow> (case json_parse txt of None \<Rightarrow> Inl SyntaxError | Some v \<Rightarrow> Inr v))"

definition own :: "jsval \<Rightarrow> jsstring \<Rightarrow> jsval option" where
  \<comment> \<open>the member \<open>k\<close> that spreading \<open>v\<close> into an object literal copies, for a name \<open>k\<close> that
      is not an index\<close>
  [text_defs]: "own v k = (case v of JObj kvs \<Rightarrow> map_of kvs k | _ \<Rightarrow> None)"

definition dep :: "jsval \<Rightarrow> jsval \<Rightarrow> jsstring \<Rightarrow> jsval" where
  \<comment> \<open>\<open>deps.k\<close> for \<open>deps = { ...dependencies, ...devDependencies }\<close>: the later spread wins\<close>
  [text_defs]: "dep dependencies devDependencies k =
     (case own devDependencies k of
        Some v \<Rightarrow> v
      | None \<Rightarrow> (case own dependencies k of Some v \<Rightarrow> v | None \<Rightarrow> JUndefined))"

definition non_git_empty :: "repo \<Rightarrow> bool" where
  \<comment> \<open>the \<open>try\<close> block that reads the directory and finds nothing but \<open>.git\<close>; a failing
      \<open>readdir\<close> is caught and logged\<close>
  [text_defs]: "non_git_empty rp =
     (case listing rp of
        None \<Rightarrow> False
      | Some files \<Rightarrow> filter (\<lambda>file. file \<noteq> js ''.git'') files = [])"

definition detectProjectType_U :: "(jsstring \<Rightarrow> jsval option) \<Rightarrow> repo \<Rightarrow> exn + jsstring" where
  \<comment> \<open>\<open>UnitTestAgent._detectProjectType\<close>\<close>
  [text_defs]: "detectProjectType_U json_parse rp =
     (if has rp (js ''package.json'') then
        (case read_json json_parse rp (js ''package.json'') of
           Inl e \<Rightarrow> Inl e
         | Inr packageJson \<Rightarrow>
             (case get_prop packageJson (js ''dependencies'') of
                Inl e \<Rightarrow> Inl e
              | Inr ds \<Rightarrow>
                  (let dv = field packageJson (js ''devDependencies'')
                   in if truthy (dep ds dv (js ''jest'')) then Inr (js ''jest'')
                      else if truthy (dep ds dv (js ''mocha'')) then Inr (js ''mocha'')
                      else if truthy (dep ds dv (js ''karma'')) then Inr (js ''karma'')
                      else Inr (js ''node''))))
      else if has rp (js ''requirements.txt'') \<or> has rp (js ''setup.py'')
        then (case listing rp of
                None \<Rightarrow> Inr (js ''python'')
              | Some files \<Rightarrow>
                  if list_ex (\<lambda>file. str_includes file (js ''pytest'')) files then Inr (js ''pytest'')
                  else if list_ex (\<lambda>file. str_includes file (js ''unittest'')) files
                    then Inr (js ''unittest'')
                  else Inr (js ''python''))
      else if has rp (js ''pom.xml'') then Inr (js ''maven'')
      else if has rp (js ''build.gradle'') then Inr (js ''gradle'')
      else if has rp (js ''Cargo.toml'') then Inr (js ''rust'')
      else if has rp (js ''go.mod'') then Inr (js ''go'')
      else if non_git_empty rp then Inr (js ''empty'')
      else Inr (js ''unknown''))"

definition detectProjectType_I :: "(jsstring \<Rightarrow> jsval option) \<Rightarrow> repo \<Rightarrow> exn + jsstring" where
  \<comment> \<open>\<open>IntegrationAgent._detectProjectType\<close>\<close>
  [text_defs]: "detectProjectType_I json_parse rp =
     (if non_git_empty rp then Inr (js ''empty'')
      else if has rp (js ''package.json'') then
        (case read_json json_parse rp (js ''package.json'') of
           Inl e \<Rightarrow> Inl e
         | Inr packageJson \<Rightarrow>
             (case get_prop packageJson (js ''dependencies'') of
                Inl e \<Rightarrow> Inl e
              | Inr ds \<Rightarrow>
                  (let dv = field packageJson (js ''devDependencies'')
                   in if truthy (dep ds dv (js ''cypress'')) then Inr (js ''cypress'')
                      else if truthy (dep ds dv (js ''@playwright/test'')) then Inr (js ''playwright'')
                      else if truthy (dep ds dv (js ''protractor'')) then Inr (js ''protractor'')
                      else if truthy (dep ds dv (js ''jest''))
                              \<and> (truthy (dep ds dv (js ''@testing-library/react''))
                                 \<or> truthy (dep ds dv (js ''@testing-library/vue'')))
                        then Inr (js ''jest-dom'')
                      else if truthy (dep ds dv (js ''jest'')) then Inr (js ''jest'')
                      else if truthy (dep ds dv (js ''mocha'')) \<and> truthy (dep ds dv (js ''supertest''))
                        then Inr (js ''mocha-supertest'')
                      else Inr (js ''node''))))
      else if has rp (js ''requirements.txt'') \<or> has rp (js ''setup.py'')
        then (case listing rp of
                None \<Rightarrow> Inr (js ''python'')
              | Some files \<Rightarrow>
                  if list_ex (\<lambda>file. str_includes file (js ''selenium'')) files
                    then Inr (js ''selenium-python'')
                  else if list_ex (\<lambda>file. str_includes file (js ''pytest'')) files then Inr (js ''pytest'')
                  else if list_ex (\<lambda>file. str_includes file (js ''behave'')) files then Inr (js ''behave'')
                  else Inr (js ''python''))
      else if has rp (js ''pom.xml'') then
        (case content rp (js ''pom.xml'') of
           None \<Rightarrow> Inl FsError
         | Some pomXml \<Rightarrow>
             if str_includes pomXml (js ''selenium'') then Inr (js ''selenium-java'')
             else if str_includes pomXml (js ''cucumber'') then Inr (js ''cucumber-java'')
             else if str_includes pomXml (js ''rest-assured'') then Inr (js ''rest-assured'')
             else Inr (js ''maven''))
      else if has rp (js ''build.gradle'') then Inr (js ''gradle'')
      else if has rp (js ''docker-compose.yml'') then Inr (js ''docker-compose'')
      else Inr (js ''unknown''))"

definition determineTestCommand :: "(jsstring \<Rightarrow> jsval option)
     \<Rightarrow> (jsstring \<Rightarrow> exn + (jsstring \<times> jsstring)) \<Rightarrow> repo \<Rightarrow> jsstring \<Rightarrow> jsstring option" where
  \<comment> \<open>\<open>UnitTestAgent._determineTestCommand\<close>; \<open>exec\<close> is the promisified
      \<open>child_process.exec\<close>, a parameter\<close>
  [text_defs]: "determineTestCommand json_parse exec rp projectType =
     (if projectType = js ''empty'' then Some (js ''echo \"Repository is empty, no tests to run\"'')
      else if projectType = js ''jest'' then Some (js ''npx jest --json'')
      else if projectType = js ''mocha'' then Some (js ''npx mocha --reporter json'')
      else if projectType = js ''karma'' then Some (js ''npx karma start --single-run --reporters json'')
      else if projectType = js ''node'' then
        \<comment> \<open>the manifest is parsed inside \<open>try\<close>; an exception is logged, and \<open>null\<close> returned\<close>
        (case read_json json_parse rp (js ''package.json'') of
           Inl e \<Rightarrow> None
         | Inr packageJson \<Rightarrow>
             (case get_prop packageJson (js ''scripts'') of
                Inl e \<Rightarrow> None
              | Inr scripts \<Rightarrow>
                  if truthy scripts \<and> truthy (field scripts (js ''test''))
                  then Some (js ''npm test'') else None))
      else if projectType = js ''pytest'' then Some (js ''python -m pytest -v'')
      else if projectType = js ''unittest'' then Some (js ''python -m unittest discover'')
      else if projectType = js ''python'' then
        (case exec (js ''pip list | grep pytest'') of
           Inr _ \<Rightarrow> Some (js ''python -m pytest -v'')
         | Inl _ \<Rightarrow> Some (js ''python -m unittest discover''))
      else if projectType = js ''maven'' then Some (js ''mvn test'')
      else if projectType = js ''gradle'' then Some (js ''./gradlew test'')
      else if projectType = js ''rust'' then Some (js ''cargo test'')
      else if projectType = js ''go'' then Some (js ''go test ./...'')
      else None)"

definition determineIntegrationTestCommand :: "(jsstring \<Rightarrow> jsval option) \<Rightarrow> repo \<Rightarrow> jsstring
                                                 \<Rightarrow> jsstring option" where
  \<comment> \<open>\<open>IntegrationAgent._determineIntegrationTestCommand\<close>\<close>
  [text_defs]: "determineIntegrationTestCommand json_parse rp projectType =
     (if projectType = js ''cypress'' then Some (js ''npx cypress run'')
      else if projectType = js ''playwright'' then Some (js ''npx playwright test'')
      else if projectType = js ''protractor'' then Some (js ''npx protractor e2e/protractor.conf.js'')
      else if projectType = js ''jest-dom'' then Some (js ''npx jest --testPathPattern=integration'')
      else if projectType = js ''jest'' then
        (if has rp (js ''tests/integration'') then Some (js ''npx jest tests/integration'')
         else if has rp (js ''__tests__/integration'') then Some (js ''npx jest __tests__/integration'')
         else if has rp (js ''integration'') then Some (js ''npx jest integration'')
         else Some (js ''npx jest --testPathPattern=integration''))
      else if projectType = js ''mocha-supertest'' then
        (if has rp (js ''test/integration'') then Some (js ''npx mocha test/integration'')
         else if has rp (js ''tests/integration'') then Some (js ''npx mocha tests/integration'')
         else Some (js ''npx mocha \"**/*.integration.js\"''))
      else if projectType = js ''node'' then
        \<comment> \<open>the manifest is parsed inside \<open>try\<close>; an exception is logged, and \<open>null\<close> returned\<close>
        (case read_json json_parse rp (js ''package.json'') of
           Inl e \<Rightarrow> None
         | Inr packageJson \<Rightarrow>
             (case get_prop packageJson (js ''scripts'') of
                Inl e \<Rightarrow> None
              | Inr scripts \<Rightarrow>
                  if truthy scripts then
                    (if truthy (field scripts (js ''test:integration''))
                       then Some (js ''npm run test:integration'')
                     else if truthy (field scripts (js ''integration''))
                       then Some (js ''npm run integration'')
                     else if truthy (field scripts (js ''e2e'')) then Some (js ''npm run e2e'')
                     else None)
                  else None))
      else if projectType = js ''selenium-python'' then Some (js ''python -m pytest tests/integration'')
      else if projectType = js ''pytest'' then
        (if has rp (js ''tests/integration'') then Some (js ''python -m pytest tests/integration'')
         else if has rp (js ''integration'') then Some (js ''python -m pytest integration'')
         else Some (js ''python -m pytest -k \"integration\"''))
      else if projectType = js ''behave'' then Some (js ''behave'')
      else if projectType = js ''selenium-java'' \<or> projectType = js ''cucumber-java''
              \<or> projectType = js ''rest-assured'' \<or> projectType = js ''maven''
        then Some (js ''mvn verify'')
      else if projectType = js ''gradle'' then Some (js ''./gradlew integrationTest'')
      else if projectType = js ''docker-compose''
        then Some (js ''docker-compose up --abort-on-container-exit --exit-code-from test'')
      else None)"

section \<open>The orchestrators\<close>

text \<open>
  \<open>runTests\<close> of either agent. The notifications only write to the console inside their
  own \<open>try\<close>; the log file and the optional screenshot directory (\<open>captureScreenshots\<close>,
  false unless the caller sets it) add fields to the result that no parser reads. They
  are not modelled. \<open>testCommand\<close> is the caller's optional command: \<open>None\<close> when absent.
\<close>

definition choose_command :: "jsstring option \<Rightarrow> jsstring option \<Rightarrow> jsstring option" where
  \<comment> \<open>\<open>testCommand || determined\<close>, then \<open>if (!command) throw\<close>: an empty string is falsy\<close>
  [text_defs]: "choose_command testCommand determined =
     (case testCommand of
        Some c \<Rightarrow> if c = [] then determined else Some c
      | None \<Rightarrow> determined)"

definition rethrow :: "(exn + 'a) \<Rightarrow> exn + 'a" where
  \<comment> \<open>\<open>catch (error) { ...; throw new Error(`Failed to run ... tests: ${error.message}`) }\<close>\<close>
  [text_defs]: "rethrow body = (case body of Inl e \<Rightarrow> Inl (FailedToRun e) | Inr r \<Rightarrow> Inr r)"

definition runTests_U :: "(jsstring \<Rightarrow> jsval option) \<Rightarrow> (jsval \<Rightarrow> jsstring option)
     \<Rightarrow> (jsstring \<Rightarrow> exn + (jsstring \<times> jsstring)) \<Rightarrow> repo \<Rightarrow> jsstring option
     \<Rightarrow> exn + test_result" where
  \<comment> \<open>\<open>UnitTestAgent.runTests\<close>\<close>
  [text_defs]: "runTests_U json_parse to_string exec rp testCommand =
     (if path_ok rp then
        rethrow
          (case detectProjectType_U json_parse rp of
             Inl e \<Rightarrow> Inl e
           | Inr projectType \<Rightarrow>
               (case choose_command testCommand
                       (determineTestCommand json_parse exec rp projectType) of
                  None \<Rightarrow> Inl (NoTestCommand projectType)
                | Some command \<Rightarrow>
                    (case exec command of
                       Inl e \<Rightarrow> Inl e
                     | Inr (stdout, stderr) \<Rightarrow>
                         parseTestResults json_parse to_string stdout stderr projectType)))
      else Inl RepoPathMissing)"

definition empty_integration_result :: test_result where
  \<comment> \<open>the object literal of the empty-repository branch of \<open>IntegrationAgent.runTests\<close>\<close>
  [text_defs]: "empty_integration_result =
     \<lparr> success = JBool True,
       summary = \<lparr> total = JNum 1, passed = JNum 0, failed = JNum 0, skipped = JNum 1 \<rparr>,
       details = [\<lparr> name = JStr (js ''repository-empty-check''), suite = JStr (js ''system''),
                    status = JStr (js ''skipped''), duration = JNum 0,
                    failureMessages =
                      JArr [JStr (js ''Repository is empty, no integration tests to run'')] \<rparr>],
       rawOutput = js ''Repository is empty, no integration tests to run'',
       rawError = [],
       error = None \<rparr>"

definition runTests_I :: "(jsstring \<Rightarrow> jsval option) \<Rightarrow> (jsstring \<Rightarrow> proc_event list) \<Rightarrow> nat
     \<Rightarrow> repo \<Rightarrow> jsstring option \<Rightarrow> (exn + test_result) option" where
  \<comment> \<open>\<open>IntegrationAgent.runTests\<close>; \<open>spawn c\<close> is what the process started for the command
      \<open>c\<close> does, \<open>timeout\<close> is \<open>this.timeout\<close>; \<open>None\<close> when the call stays pending\<close>
  [text_defs]: "runTests_I json_parse spawn timeout rp testCommand =
     (if path_ok rp then
        (case detectProjectType_I json_parse rp of
           Inl e \<Rightarrow> Some (Inl (FailedToRun e))
         | Inr projectType \<Rightarrow>
             if projectType = js ''empty'' then Some (Inr empty_integration_result)
             else
               (case choose_command testCommand
                       (determineIntegrationTestCommand json_parse rp projectType) of
                  None \<Rightarrow> Some (Inl (FailedToRun (NoTestCommand projectType)))
                | Some command \<Rightarrow>
                    (case executeCommand command timeout (spawn command) of
                       None \<Rightarrow> None
                     | Some (Inl e) \<Rightarrow> Some (Inl (FailedToRun e))
                     | Some (Inr (stdout, stderr)) \<Rightarrow>
                         Some (rethrow (parseIntegrationTestResults stdout stderr projectType)))))
      else Some (Inl RepoPathMissing))"

section \<open>Properties of a result\<close>


fun is_data :: "proc_event \<Rightarrow> bool" where   \<comment> \<open>an output chunk, as opposed to an end of the run\<close>
  "is_data (StdoutData _) = True"
| "is_data (StderrData _) = True"
| "is_data _ = False"

fun chunks_out :: "proc_event list \<Rightarrow> jsstring" where   \<comment> \<open>everything the child wrote to stdout\<close>
  "chunks_out [] = []"
| "chunks_out (StdoutData s # es) = s @ chunks_out es"
| "chunks_out (_ # es) = chunks_out es"

fun chunks_err :: "proc_event list \<Rightarrow> jsstring" where   \<comment> \<open>everything the child wrote to stderr\<close>
  "chunks_err [] = []"
| "chunks_err (StderrData s # es) = s @ chunks_err es"
| "chunks_err (_ # es) = chunks_err es"

definition returned :: "exn + 'a \<Rightarrow> 'a option" where   \<comment> \<open>the value, when the call returns one\<close>
  [text_defs]: "returned x = (case x of Inr v \<Rightarrow> Some v | Inl _ \<Rightarrow> None)"

definition chunk_64k :: jsstring where   \<comment> \<open>one read of a pipe: 64 KiB of the letter x\<close>
  "chunk_64k = replicate 65536 120"

definition big_run :: "proc_event list" where
  \<comment> \<open>161 such chunks on stdout: more than \<open>10 * 1024 * 1024\<close> characters, the \<open>maxBuffer\<close>
      the unit agent gives \<open>exec\<close>\<close>
  "big_run = replicate 161 (StdoutData chunk_64k)"

definition same_envelope :: "test_result \<Rightarrow> test_result \<Rightarrow> bool" where
  \<comment> \<open>the fields no parser writes\<close>
  "same_envelope r r' =
     (rawOutput r' = rawOutput r \<and> rawError r' = rawError r \<and> error r' = error r)"

subsection \<open>Stand-ins for the environment in the examples\<close>

text \<open>
  The theorems below hold for every \<open>JSON.parse\<close>, every string conversion, every shell
  and every child process. The examples need particular ones. These answer as the real
  ones do on the inputs the examples use, and are not meant beyond them.
\<close>

definition json_parse_sample :: "jsstring \<Rightarrow> jsval option" where
  \<comment> \<open>\<open>JSON.parse\<close> on \<open>{}\<close>, on \<open>null\<close>, on \<open>{"numPendingTests":5}\<close>, and on texts that are
      not JSON\<close>
  [text_defs]: "json_parse_sample s =
     (if s = js ''{}'' then Some (JObj [])
      else if s = js ''null'' then Some JNull
      else if s = js ''{\"numPendingTests\":5}'' then Some (JObj [(js ''numPendingTests'', JNum 5)])
      else None)"

definition to_string_sample :: "jsval \<Rightarrow> jsstring option" where
  \<comment> \<open>the conversion of the values that need no number formatting\<close>
  [text_defs]: "to_string_sample v =
     (case v of
        JStr s \<Rightarrow> Some s
      | JNull \<Rightarrow> Some (js ''null'')
      | JUndefined \<Rightarrow> Some (js ''undefined'')
      | JBool b \<Rightarrow> Some (if b then js ''true'' else js ''false'')
      | _ \<Rightarrow> None)"

definition exec_sample :: "jsstring \<Rightarrow> exn + (jsstring \<times> jsstring)" where
  \<comment> \<open>a shell in which \<open>echo\<close> prints its argument and \<open>exit 1\<close> fails\<close>
  [text_defs]: "exec_sample c =
     (if c = js ''echo \"Repository is empty, no tests to run\"''
        then Inr (js ''Repository is empty, no tests to run'' @ [10], [])
      else if c = js ''exit 1'' then Inl (ProcessError (js ''Command failed: exit 1''))
      else Inr ([], []))"

definition spawn_sample :: "jsstring \<Rightarrow> proc_event list" where
  \<comment> \<open>a child that prints nothing and exits with code 0\<close>
  [text_defs]: "spawn_sample c = [Close (Some 0)]"

definition git_only_repo :: repo where
  \<comment> \<open>a directory that exists and holds \<open>.git\<close> and nothing else\<close>
  [text_defs]: "git_only_repo =
     \<lparr> path_ok = True, listing = Some [js ''.git''], has = (\<lambda>p. False), content = (\<lambda>p. None) \<rparr>"

definition malformed_manifest_repo :: repo where
  \<comment> \<open>a directory whose only file is a \<open>package.json\<close> holding the text \<open>{\<close>\<close>
  [text_defs]: "malformed_manifest_repo =
     \<lparr> path_ok = True, listing = Some [js ''package.json''],
       has = (\<lambda>p. p = js ''package.json''),
       content = (\<lambda>p. if p = js ''package.json'' then Some (js ''{'') else None) \<rparr>"

definition manifests :: "jsstring list" where
  \<comment> \<open>the files \<open>UnitTestAgent._detectProjectType\<close> looks for before it reads the directory\<close>
  [text_defs]: "manifests = [js ''package.json'', js ''requirements.txt'', js ''setup.py'', js ''pom.xml'',
                js ''build.gradle'', js ''Cargo.toml'', js ''go.mod'']"

definition absent :: "repo \<Rightarrow> jsstring \<Rightarrow> bool" where
  [text_defs]: "absent rp p = (if has rp p then False else True)"

section \<open>What a parser returns\<close>

subsection \<open>The generic fallback\<close>

lemma generic_finish_summary:
  "summary (generic_finish ok ls (standardResult a b)) =
     \<lparr> total = JNum (if ls = [] then 1 else int (length ls)),
       passed = JNum (if ok then (if ls = [] then 1 else int (length ls))
                      else (if ls = [] then 1 else int (length ls)) - 1),
       failed = JNum (if ok then 0 else 1),
       skipped = JNum 0 \<rparr>"
  by (simp add: generic_finish_def standardResult_def Let_def)


lemma generic_finish_raw:
  "rawOutput (generic_finish ok ls r) = rawOutput r \<and> rawError (generic_finish ok ls r) = rawError r
   \<and> error (generic_finish ok ls r) = error r"
  by (simp add: generic_finish_def Let_def)




subsection \<open>The Jest summary line\<close>

text \<open>
  C8. For stdout \<open>Tests: 3 passed, 1 failed, 4 total\<close> and an empty stderr, the
  integration agent's Jest parser (and so the dispatcher, for the tag \<open>jest\<close>) returns
  the summary \<open>{total: 4, passed: 3, failed: 1, skipped: 0}\<close> and \<open>success = false\<close>.
\<close>

theorem jest_summary_line_scenario:
  "parseIntegrationTestResults (js ''Tests: 3 passed, 1 failed, 4 total'') [] (js ''jest'')
     = Inr (parseJestResults_I (js ''Tests: 3 passed, 1 failed, 4 total'') []
              (standardResult (js ''Tests: 3 passed, 1 failed, 4 total'') []))
   \<and> parseJestResults_I (js ''Tests: 3 passed, 1 failed, 4 total'') []
        (standardResult (js ''Tests: 3 passed, 1 failed, 4 total'') [])
     = \<lparr> success = JBool False,
         summary = \<lparr> total = JNum 4, passed = JNum 3, failed = JNum 1, skipped = JNum 0 \<rparr>,
         details = [],
         rawOutput = js ''Tests: 3 passed, 1 failed, 4 total'',
         rawError = [],
         error = None \<rparr>"
  by (simp add: text_defs)

subsection \<open>Whether the counts add up\<close>








subsection \<open>Where the success flag comes from\<close>




section \<open>Parsing never fails\<close>

lemma envelope_refl: "same_envelope r r" by (simp add: same_envelope_def)

lemma envelope_text_parsers:
  "same_envelope r (parseCypressResults stdout stderr r)"
  "same_envelope r (parsePlaywrightResults stdout stderr r)"
  "same_envelope r (parseJestResults_I stdout stderr r)"
  "same_envelope r (parseMochaResults_I stdout stderr r)"
  "same_envelope r (parsePytestResults stdout stderr r)"
  "same_envelope r (parseBehaveResults stdout stderr r)"
  "same_envelope r (parseJavaResults_I stdout stderr r)"
  "same_envelope r (parseDockerComposeResults stdout stderr r)"
  "same_envelope r (parseGenericResults_I stdout stderr r)"
  "same_envelope r (parsePythonResults stdout stderr r)"
  "same_envelope r (parseJavaResults_U stdout stderr r)"
  "same_envelope r (parseRustResults stdout stderr r)"
  "same_envelope r (parseGoResults stdout stderr r)"
  "same_envelope r (parseGenericResults_U stdout stderr r)"
  by (simp_all add: same_envelope_def parseCypressResults_def parsePlaywrightResults_def
        parseJestResults_I_def parseMochaResults_I_def parsePytestResults_def parseBehaveResults_def
        behave_counts_def parseJavaResults_I_def java_counts_def parseDockerComposeResults_def
        parseGenericResults_I_def parsePythonResults_def parseJavaResults_U_def parseRustResults_def
        parseGoResults_def parseGenericResults_U_def generic_finish_def Let_def
        split: option.splits prod.splits)

lemma envelope_jest_tests:
  "same_envelope r (fst (jest_tests s ts r))"
proof (induction ts arbitrary: r)
  case Nil
  then show ?case by (simp add: same_envelope_def)
next
  case (Cons t ts)
  show ?case
  proof (cases "get_prop t (js ''title'')")
    case (Inl e)
    then show ?thesis by (simp add: same_envelope_def)
  next
    case (Inr title)
    then show ?thesis
      using Cons.IH [of "r\<lparr>details := details r @
                 [\<lparr> name = title, suite = field s (js ''name''),
                    status = field t (js ''status''),
                    duration = js_or (field t (js ''duration'')) (JNum 0),
                    failureMessages = js_or (field t (js ''failureMessages'')) (JArr []) \<rparr>]\<rparr>"]
      by (simp add: same_envelope_def)
  qed
qed

lemma envelope_jest_suites:
  "same_envelope r (fst (jest_suites ss r))"
proof (induction ss arbitrary: r)
  case Nil
  then show ?case by (simp add: same_envelope_def)
next
  case (Cons s ss)
  show ?case
  proof (cases "get_prop s (js ''assertionResults'')")
    case (Inl e)
    then show ?thesis by (simp add: same_envelope_def)
  next
    case (Inr v)
    show ?thesis
    proof (cases v)
      case (JArr tests)
      obtain r' x where j: "jest_tests s tests r = (r', x)" by (cases "jest_tests s tests r")
      have e1: "same_envelope r r'" using envelope_jest_tests [of r s tests] j by simp
      show ?thesis
      proof (cases x)
        case None
        then show ?thesis using Inr JArr j e1 Cons.IH [of r'] by (simp add: same_envelope_def)
      next
        case (Some e)
        then show ?thesis using Inr JArr j e1 by simp
      qed
    qed (use Inr in \<open>simp_all add: same_envelope_def\<close>)
  qed
qed

lemma envelope_jest_try: "same_envelope r (fst (jest_try json_parse stdout r))"
proof (cases "json_parse stdout")
  case None
  then show ?thesis by (simp add: jest_try_def same_envelope_def)
next
  case (Some jr)
  show ?thesis
  proof (cases "get_prop jr (js ''success'')")
    case (Inl e)
    then show ?thesis using Some by (simp add: jest_try_def same_envelope_def)
  next
    case (Inr s)
    let ?r1 = "r\<lparr>success := s,
                            summary := (summary r)\<lparr>total := field jr (js ''numTotalTests''),
                                                    passed := field jr (js ''numPassedTests''),
                                                    failed := field jr (js ''numFailedTests''),
                                                    skipped := field jr (js ''numPendingTests'')\<rparr>\<rparr>"
    show ?thesis
    proof (cases "field jr (js ''testResults'')")
      case (JArr suites)
      then show ?thesis using Some Inr envelope_jest_suites [of ?r1 suites]
        by (simp add: jest_try_def same_envelope_def Let_def)
    qed (use Some Inr in \<open>simp_all add: jest_try_def same_envelope_def Let_def\<close>)
  qed
qed


lemma envelope_mocha_tests:
  "same_envelope r (fst (mocha_tests to_string ts st r))"
proof (induction ts arbitrary: r)
  case Nil
  then show ?case by (simp add: same_envelope_def)
next
  case (Cons t ts)
  have step: "\<And>c. same_envelope r (fst (mocha_tests to_string ts st (r\<lparr>details := details r @ [c]\<rparr>)))"
  proof -
    fix c
    show "same_envelope r (fst (mocha_tests to_string ts st (r\<lparr>details := details r @ [c]\<rparr>)))"
      using Cons.IH [of "r\<lparr>details := details r @ [c]\<rparr>"] by (simp add: same_envelope_def)
  qed
  show ?case
    by (auto simp add: step envelope_refl split: sum.splits jsval.splits option.splits)
qed

lemma envelope_processMochaTests:
  "same_envelope r (fst (processMochaTests to_string tests st r))"
  by (cases tests) (simp_all add: processMochaTests_def envelope_mocha_tests envelope_refl)

lemma envelope_trans: "same_envelope a b \<Longrightarrow> same_envelope b c \<Longrightarrow> same_envelope a c"
  by (simp add: same_envelope_def)

lemma envelope_mocha_try: "same_envelope r (fst (mocha_try json_parse to_string stdout r))"
proof (cases "json_parse stdout")
  case None
  then show ?thesis by (simp add: mocha_try_def envelope_refl)
next
  case (Some mr)
  show ?thesis
  proof (cases "get_prop mr (js ''stats'')")
    case (Inl e)
    then show ?thesis using Some by (simp add: mocha_try_def envelope_refl)
  next
    case stats: (Inr stats)
    show ?thesis
    proof (cases "get_prop stats (js ''failures'')")
      case (Inl e)
      then show ?thesis using Some stats by (simp add: mocha_try_def envelope_refl)
    next
      case (Inr failures)
      let ?r1 = "r\<lparr>success := JBool (failures = JNum 0),
                                 summary := (summary r)\<lparr>total := field stats (js ''tests''),
                                                         passed := field stats (js ''passes''),
                                                         failed := failures,
                                                         skipped := field stats (js ''pending'')\<rparr>\<rparr>"
      have e1: "same_envelope r ?r1" by (simp add: same_envelope_def)
      obtain r2 x2 where p2: "processMochaTests to_string (field mr (js ''passes'')) (js ''passed'') ?r1 = (r2, x2)"
        by (cases "processMochaTests to_string (field mr (js ''passes'')) (js ''passed'') ?r1")
      obtain r3 x3 where p3: "processMochaTests to_string (field mr (js ''failures'')) (js ''failed'') r2 = (r3, x3)"
        by (cases "processMochaTests to_string (field mr (js ''failures'')) (js ''failed'') r2")
      have e2: "same_envelope r r2"
        using envelope_processMochaTests [of ?r1 to_string "field mr (js ''passes'')" "js ''passed''"] p2 e1
        by (auto intro: envelope_trans)
      have e3: "same_envelope r r3"
        using envelope_processMochaTests [of r2 to_string "field mr (js ''failures'')" "js ''failed''"] p3 e2
        by (auto intro: envelope_trans)
      have e4: "same_envelope r (fst (processMochaTests to_string (field mr (js ''pending'')) (js ''skipped'') r3))"
        using envelope_processMochaTests [of r3 to_string "field mr (js ''pending'')" "js ''skipped''"] e3
        by (auto intro: envelope_trans)
      show ?thesis
        using Some stats Inr p2 p3 e2 e3 e4
        by (simp add: mocha_try_def Let_def split: option.splits)
    qed
  qed
qed

lemma jest_U_total:
  "\<exists>r'. parseJestResults_U json_parse stdout r = Inr r' \<and> same_envelope r r'"
proof (cases "jest_try json_parse stdout r")
  case (Pair r1 x)
  have "same_envelope r r1" using envelope_jest_try [of r json_parse stdout] Pair by simp
  then show ?thesis
    using Pair envelope_text_parsers(14) [of r1 stdout "[]"]
    by (cases x) (auto simp add: parseJestResults_U_def intro: envelope_trans)
qed

lemma mocha_U_total:
  "\<exists>r'. parseMochaResults_U json_parse to_string stdout r = Inr r' \<and> same_envelope r r'"
proof (cases "mocha_try json_parse to_string stdout r")
  case (Pair r1 x)
  have "same_envelope r r1" using envelope_mocha_try [of r json_parse to_string stdout] Pair by simp
  then show ?thesis
    using Pair envelope_text_parsers(14) [of r1 stdout "[]"]
    by (cases x) (auto simp add: parseMochaResults_U_def intro: envelope_trans)
qed

lemma unit_total:
  "\<exists>r. parseTestResults json_parse to_string stdout stderr projectType = Inr r
        \<and> rawOutput r = stdout \<and> rawError r = stderr \<and> error r = None"
proof -
  let ?r0 = "standardResult stdout stderr"
  have r0: "rawOutput ?r0 = stdout" "rawError ?r0 = stderr" "error ?r0 = None"
    by (simp_all add: standardResult_def)
  obtain rj where rj: "parseJestResults_U json_parse stdout ?r0 = Inr rj" "same_envelope ?r0 rj"
    using jest_U_total by blast
  obtain rm where rm: "parseMochaResults_U json_parse to_string stdout ?r0 = Inr rm" "same_envelope ?r0 rm"
    using mocha_U_total by blast
  show ?thesis
    using r0 rj rm envelope_text_parsers [of ?r0 stdout stderr]
    by (simp add: parseTestResults_def catch_def Let_def same_envelope_def empty_result_def)
qed

lemma integration_total:
  "\<exists>r. parseIntegrationTestResults stdout stderr projectType = Inr r
        \<and> rawOutput r = stdout \<and> rawError r = stderr \<and> error r = None"
proof -
  let ?r0 = "standardResult stdout stderr"
  have r0: "rawOutput ?r0 = stdout" "rawError ?r0 = stderr" "error ?r0 = None"
    by (simp_all add: standardResult_def)
  show ?thesis
    using r0 envelope_text_parsers [of ?r0 stdout stderr]
    by (simp add: parseIntegrationTestResults_def catch_def Let_def same_envelope_def)
qed

text \<open>
  C2. For every stdout, every stderr and every project tag (and whatever \<open>JSON.parse\<close>
  and the string conversion do), the dispatcher of either agent returns a result: it
  does not throw, and its own handler is never reached, the \<open>error\<close> field staying
  unset. When \<open>JSON.parse\<close> of the output fails, the unit agent's Jest and Mocha
  parsers return what the generic parser returns on that output; and whenever their
  \<open>try\<close> block ends in an exception, at whatever statement, the result comes from the
  generic parser.
\<close>

theorem parse_never_throws:
  fixes json_parse :: "jsstring \<Rightarrow> jsval option" and to_string :: "jsval \<Rightarrow> jsstring option"
    and stdout stderr projectType :: jsstring and r0 :: test_result
  shows "(\<exists>r. parseTestResults json_parse to_string stdout stderr projectType = Inr r
              \<and> rawOutput r = stdout \<and> rawError r = stderr \<and> error r = None)
       \<and> (\<exists>r. parseIntegrationTestResults stdout stderr projectType = Inr r
              \<and> rawOutput r = stdout \<and> rawError r = stderr \<and> error r = None)
       \<and> (json_parse stdout = None \<longrightarrow>
            parseJestResults_U json_parse stdout r0 = Inr (parseGenericResults_U stdout [] r0)
          \<and> parseMochaResults_U json_parse to_string stdout r0 = Inr (parseGenericResults_U stdout [] r0)
          \<and> parseTestResults json_parse to_string stdout stderr (js ''jest'')
              = Inr (parseGenericResults_U stdout [] (standardResult stdout stderr))
          \<and> parseTestResults json_parse to_string stdout stderr (js ''mocha'')
              = Inr (parseGenericResults_U stdout [] (standardResult stdout stderr)))
       \<and> (snd (jest_try json_parse stdout r0) \<noteq> None \<longrightarrow>
            parseJestResults_U json_parse stdout r0
              = Inr (parseGenericResults_U stdout [] (fst (jest_try json_parse stdout r0))))
       \<and> (snd (mocha_try json_parse to_string stdout r0) \<noteq> None \<longrightarrow>
            parseMochaResults_U json_parse to_string stdout r0
              = Inr (parseGenericResults_U stdout [] (fst (mocha_try json_parse to_string stdout r0))))"
proof -
  have fallback: "json_parse stdout = None \<longrightarrow>
            parseJestResults_U json_parse stdout r0 = Inr (parseGenericResults_U stdout [] r0)
          \<and> parseMochaResults_U json_parse to_string stdout r0 = Inr (parseGenericResults_U stdout [] r0)
          \<and> parseTestResults json_parse to_string stdout stderr (js ''jest'')
              = Inr (parseGenericResults_U stdout [] (standardResult stdout stderr))
          \<and> parseTestResults json_parse to_string stdout stderr (js ''mocha'')
              = Inr (parseGenericResults_U stdout [] (standardResult stdout stderr))"
    by (simp add: parseJestResults_U_def parseMochaResults_U_def jest_try_def mocha_try_def
          parseTestResults_def catch_def js_def)
  have jest: "snd (jest_try json_parse stdout r0) \<noteq> None \<longrightarrow>
            parseJestResults_U json_parse stdout r0
              = Inr (parseGenericResults_U stdout [] (fst (jest_try json_parse stdout r0)))"
    by (cases "jest_try json_parse stdout r0") (auto simp add: parseJestResults_U_def)
  have mocha: "snd (mocha_try json_parse to_string stdout r0) \<noteq> None \<longrightarrow>
            parseMochaResults_U json_parse to_string stdout r0
              = Inr (parseGenericResults_U stdout [] (fst (mocha_try json_parse to_string stdout r0)))"
    by (cases "mocha_try json_parse to_string stdout r0") (auto simp add: parseMochaResults_U_def)
  show ?thesis
    using unit_total [of json_parse to_string stdout stderr projectType]
      integration_total [of stdout stderr projectType] fallback jest mocha
    by blast
qed

theorem parse_never_throws_witness:
  "json_parse_sample (js ''FAIL: not json'') = None
   \<and> parseTestResults json_parse_sample to_string_sample (js ''FAIL: not json'') [] (js ''jest'')
       = Inr (parseGenericResults_U (js ''FAIL: not json'') [] (standardResult (js ''FAIL: not json'') []))
   \<and> snd (jest_try json_parse_sample (js ''{}'') (standardResult (js ''{}'') [])) = Some TypeError
   \<and> parseJestResults_U json_parse_sample (js ''{}'') (standardResult (js ''{}'') [])
       = Inr (parseGenericResults_U (js ''{}'') []
                (fst (jest_try json_parse_sample (js ''{}'') (standardResult (js ''{}'') []))))"
proof -
  have h1: "json_parse_sample (js ''FAIL: not json'') = None"
    by (simp add: json_parse_sample_def js_def)
  have h2: "snd (jest_try json_parse_sample (js ''{}'') (standardResult (js ''{}'') [])) = Some TypeError"
    by (simp add: text_defs)
  show ?thesis
    using h1 h2
      parse_never_throws [of json_parse_sample to_string_sample "js ''FAIL: not json''" "[]"
                             "js ''jest''" "standardResult (js ''FAIL: not json'') []"]
      parse_never_throws [of json_parse_sample to_string_sample "js ''{}''" "[]"
                             "js ''jest''" "standardResult (js ''{}'') []"]
    by simp
qed

section \<open>The runner\<close>

lemma data_keeps:
  "list_all is_data evs \<Longrightarrow>
     settled (foldl (on_event c t) st evs) = settled st
   \<and> timer (foldl (on_event c t) st evs) = timer st
   \<and> killed (foldl (on_event c t) st evs) = killed st
   \<and> stdout_buf (foldl (on_event c t) st evs) = stdout_buf st @ chunks_out evs
   \<and> stderr_buf (foldl (on_event c t) st evs) = stderr_buf st @ chunks_err evs"
proof (induction evs arbitrary: st)
  case Nil
  then show ?case by simp
next
  case (Cons e evs)
  then show ?case by (cases e) simp_all
qed

lemma settled_stays:
  "settled st = Some v \<Longrightarrow> settled (foldl (on_event c t) st evs) = Some v"
proof (induction evs arbitrary: st)
  case Nil
  then show ?case by simp
next
  case (Cons e evs)
  have "settled (on_event c t st e) = Some v"
    using Cons.prems by (cases e) (simp_all add: settle_def Let_def)
  then show ?case using Cons.IH by simp
qed

lemma killed_stays:
  "killed st \<Longrightarrow> killed (foldl (on_event c t) st evs)"
proof (induction evs arbitrary: st)
  case Nil
  then show ?case by simp
next
  case (Cons e evs)
  have "killed (on_event c t st e)"
    using Cons.prems by (cases e) (simp_all add: settle_def Let_def split: option.splits)
  then show ?case using Cons.IH by simp
qed

lemma buffers_grow:
  "stdout_buf (foldl (on_event c t) st evs) = stdout_buf st @ chunks_out evs
   \<and> stderr_buf (foldl (on_event c t) st evs) = stderr_buf st @ chunks_err evs"
proof (induction evs arbitrary: st)
  case Nil
  then show ?case by simp
next
  case (Cons e evs)
  then show ?case by (cases e) (simp_all add: settle_def Let_def split: option.splits)
qed

lemma exec_close:
  assumes "list_all is_data pre"
  shows "executeCommand command timeout (pre @ Close code # post)
           = Some (if code = Some 0 then Inr (chunks_out pre, chunks_err pre)
                   else Inl (CommandFailed code command))"
proof -
  let ?st = "foldl (on_event command timeout) (exec_start timeout) pre"
  have k: "settled ?st = None" "stdout_buf ?st = chunks_out pre" "stderr_buf ?st = chunks_err pre"
    using data_keeps [OF assms(1), of command timeout "exec_start timeout"]
    by (simp_all add: exec_start_def)
  have s: "settled (on_event command timeout ?st (Close code))
             = Some (if code = Some 0 then Inr (chunks_out pre, chunks_err pre)
                   else Inl (CommandFailed code command))"
    using k by (simp add: settle_def Let_def)
  show ?thesis
    using settled_stays [OF s, of command timeout post]
    by (simp add: executeCommand_def run_events_def)
qed

text \<open>
  C3, as the code has it. When the timer is set (\<open>timeout\<close> is not 0) and runs before the
  child closes or fails, \<open>_executeCommand\<close> kills the child and rejects with the error
  "Command timed out after \<open>timeout\<close>ms: \<open>command\<close>"; whatever comes later changes
  nothing. The call does not return an outcome: the rejection holds the timeout and the
  command, not the output captured so far.
\<close>

theorem timeout_rejects:
  assumes "list_all is_data pre" and "0 < timeout"
  shows "executeCommand command timeout (pre @ TimerFired # post)
           = Some (Inl (CommandTimedOut timeout command))
       \<and> killed (run_events command timeout (pre @ TimerFired # post))"
proof -
  let ?st = "foldl (on_event command timeout) (exec_start timeout) pre"
  have k: "settled ?st = None" "timer ?st"
    using data_keeps [OF assms(1), of command timeout "exec_start timeout"] assms(2)
    by (simp_all add: exec_start_def)
  have s: "settled (on_event command timeout ?st TimerFired) = Some (Inl (CommandTimedOut timeout command))"
      "killed (on_event command timeout ?st TimerFired)"
    using k by (simp_all add: settle_def)
  show ?thesis
    using settled_stays [OF s(1), of command timeout post] killed_stays [OF s(2), of command timeout post]
    by (simp add: executeCommand_def run_events_def)
qed

theorem timeout_rejects_witness:
  "list_all is_data [StdoutData (js ''partial'')] \<and> (0::nat) < 1000
   \<and> executeCommand (js ''sleep 10'') 1000 ([StdoutData (js ''partial'')] @ TimerFired # [Close None])
       = Some (Inl (CommandTimedOut 1000 (js ''sleep 10'')))
   \<and> killed (run_events (js ''sleep 10'') 1000 ([StdoutData (js ''partial'')] @ TimerFired # [Close None]))"
proof -
  have h: "list_all is_data [StdoutData (js ''partial'')]" "(0::nat) < 1000" by simp_all
  show ?thesis
    using h timeout_rejects [OF h, of "js ''sleep 10''" "[Close None]"] by simp
qed

text \<open>
  C3, as the specification states it, fails: a child that prints \<open>partial\<close> and is still
  running when a timer of 1000 ms expires makes the call throw; no outcome is returned,
  so none carries \<open>timedOut\<close> or the captured output.
\<close>

theorem timeout_outcome_counterexample:
  "executeCommand (js ''sleep 10'') 1000 [StdoutData (js ''partial''), TimerFired, Close None]
     = Some (Inl (CommandTimedOut 1000 (js ''sleep 10'')))
   \<and> map_option returned
       (executeCommand (js ''sleep 10'') 1000 [StdoutData (js ''partial''), TimerFired, Close None])
     = Some None"
  by (simp add: executeCommand_def run_events_def exec_start_def settle_def returned_def)

text \<open>
  C4, as the code has it. When the child closes before the timer runs, only the exit code
  0 makes \<open>_executeCommand\<close> return, with the captured stdout and stderr. Any other exit
  code, and the missing code of a child ended by a signal, makes it reject with the error
  "Command failed with exit code \<open>code\<close>: \<open>command\<close>", which holds neither stdout nor
  stderr. An \<open>error\<close> event of the child makes it reject with that error itself.
\<close>

theorem exit_status_rejects:
  assumes "list_all is_data pre"
  shows "executeCommand command timeout (pre @ Close code # post)
           = Some (if code = Some 0 then Inr (chunks_out pre, chunks_err pre)
                   else Inl (CommandFailed code command))
       \<and> executeCommand command timeout (pre @ ProcError msg # post) = Some (Inl (ProcessError msg))"
proof -
  let ?st = "foldl (on_event command timeout) (exec_start timeout) pre"
  have k: "settled ?st = None"
    using data_keeps [OF assms(1), of command timeout "exec_start timeout"]
    by (simp_all add: exec_start_def)
  have s: "settled (on_event command timeout ?st (ProcError msg)) = Some (Inl (ProcessError msg))"
    using k by (simp add: settle_def Let_def)
  have "executeCommand command timeout (pre @ ProcError msg # post) = Some (Inl (ProcessError msg))"
    using settled_stays [OF s, of command timeout post]
    by (simp add: executeCommand_def run_events_def)
  then show ?thesis
    using exec_close [OF assms, of command timeout code post] by simp
qed

theorem exit_status_rejects_witness:
  "list_all is_data [StdoutData (js ''1 failing''), StderrData (js ''boom'')]
   \<and> executeCommand (js ''npm run e2e'') 1000
       ([StdoutData (js ''1 failing''), StderrData (js ''boom'')] @ Close (Some 1) # [])
       = Some (Inl (CommandFailed (Some 1) (js ''npm run e2e'')))
   \<and> executeCommand (js ''npm run e2e'') 1000
       ([StdoutData (js ''1 failing''), StderrData (js ''boom'')] @ Close (Some 0) # [])
       = Some (Inr (js ''1 failing'', js ''boom''))"
proof -
  have h: "list_all is_data [StdoutData (js ''1 failing''), StderrData (js ''boom'')]" by simp
  show ?thesis
    using h exit_status_rejects [OF h, of "js ''npm run e2e''" 1000 "Some 1" "[]"]
      exit_status_rejects [OF h, of "js ''npm run e2e''" 1000 "Some 0" "[]"]
    by simp
qed

text \<open>
  C4, as the specification states it, fails: a child that prints to both streams and
  exits with code 1, and one that a signal ends, both make the call throw; the exit
  status is in the message of the error and the captured output is nowhere.
\<close>

theorem exit_status_outcome_counterexample:
  "executeCommand (js ''npm run e2e'') 1000
       [StdoutData (js ''1 failing''), StderrData (js ''boom''), Close (Some 1)]
     = Some (Inl (CommandFailed (Some 1) (js ''npm run e2e'')))
   \<and> executeCommand (js ''npm run e2e'') 1000 [StdoutData (js ''1 failing''), Close None]
     = Some (Inl (CommandFailed None (js ''npm run e2e'')))"
  by (simp add: executeCommand_def run_events_def exec_start_def settle_def)

text \<open>
  C9, as the code has it. The integration runner has no buffer maximum and no notion of
  truncation: after any events its two buffers hold everything the child wrote, and
  when the child then exits with code 0 the call returns exactly that, which the
  dispatcher, for every tag, stores unchanged as \<open>rawOutput\<close> and \<open>rawError\<close>.
\<close>

theorem output_is_kept_whole:
  assumes "list_all is_data pre"
  shows "stdout_buf (run_events command timeout events) = chunks_out events
       \<and> stderr_buf (run_events command timeout events) = chunks_err events
       \<and> executeCommand command timeout (pre @ Close (Some 0) # post)
           = Some (Inr (chunks_out pre, chunks_err pre))
       \<and> (\<exists>r. parseIntegrationTestResults (chunks_out pre) (chunks_err pre) projectType = Inr r
               \<and> rawOutput r = chunks_out pre \<and> rawError r = chunks_err pre)"
  using exec_close [OF assms, of command timeout "Some 0" post]
    buffers_grow [of command timeout "exec_start timeout" events]
    integration_total [of "chunks_out pre" "chunks_err pre" projectType]
  by (auto simp add: run_events_def exec_start_def)

theorem output_is_kept_whole_witness:
  "list_all is_data [StdoutData (js ''ab''), StdoutData (js ''cd'')]
   \<and> executeCommand (js ''npm run e2e'') 1000
       ([StdoutData (js ''ab''), StdoutData (js ''cd'')] @ Close (Some 0) # [])
       = Some (Inr (js ''abcd'', []))"
proof -
  have h: "list_all is_data [StdoutData (js ''ab''), StdoutData (js ''cd'')]" by simp
  show ?thesis
    using h output_is_kept_whole [OF h, of "js ''npm run e2e''" 1000 "[]" "[]" "js ''unknown''"]
    by (simp add: js_def)
qed

lemma replicate_stdout:
  "list_all is_data (replicate n (StdoutData c))
   \<and> length (chunks_out (replicate n (StdoutData c))) = n * length c
   \<and> chunks_err (replicate n (StdoutData c)) = []"
  by (induction n) simp_all

lemma length_big_run: "length (chunks_out big_run) = 10551296"
proof -
  have "length chunk_64k = 65536"
    by (simp only: chunk_64k_def length_replicate)
  then have "length (chunks_out big_run) = 161 * 65536"
    using replicate_stdout [of 161 chunk_64k] by (simp only: big_run_def)
  then show ?thesis by simp
qed

text \<open>
  C9, as the specification states it, fails: a child that writes 161 chunks of 64 KiB,
  which is more than 10 MiB (the only buffer maximum the repository names, the
  \<open>maxBuffer\<close> of the unit agent), and exits with code 0 has all of it returned, and
  \<open>rawOutput\<close> is that long.
\<close>

theorem raw_output_length_counterexample:
  "executeCommand (js ''npm run e2e'') 1200000 (big_run @ [Close (Some 0)])
     = Some (Inr (chunks_out big_run, []))
   \<and> map_option rawOutput
       (returned (parseIntegrationTestResults (chunks_out big_run) [] (js ''unknown'')))
     = Some (chunks_out big_run)
   \<and> length (chunks_out big_run) = 10551296
   \<and> 10 * 1024 * 1024 < length (chunks_out big_run)"
proof -
  have d: "list_all is_data big_run" "chunks_err big_run = []"
    using replicate_stdout [of 161 chunk_64k] by (simp_all only: big_run_def)
  have a: "executeCommand (js ''npm run e2e'') 1200000 (big_run @ [Close (Some 0)])
     = Some (Inr (chunks_out big_run, []))"
    using exec_close [OF d(1), of "js ''npm run e2e''" 1200000 "Some 0" "[]"] d(2) by simp
  obtain r where r: "parseIntegrationTestResults (chunks_out big_run) [] (js ''unknown'') = Inr r"
      "rawOutput r = chunks_out big_run"
    using integration_total [of "chunks_out big_run" "[]" "js ''unknown''"] by blast
  show ?thesis
    using a r by (simp add: returned_def length_big_run)
qed

section \<open>Detection, and the empty repository\<close>

lemma only_git_filter:
  "list_all (\<lambda>file. file = x) files \<Longrightarrow> filter (\<lambda>file. file \<noteq> x) files = []"
  by (induction files) simp_all

text \<open>
  C5 (a \<open>package.json\<close> that cannot be parsed is treated as absent, and detection goes
  on to the next check and returns a tag) fails on the code. A repository whose
  \<open>package.json\<close> holds a text that is not JSON makes \<open>_detectProjectType\<close> of either
  agent throw the \<open>SyntaxError\<close> of \<open>JSON.parse\<close>, and \<open>runTests\<close> fail with it. The
  command selectors parse the same file inside \<open>try\<close> and answer \<open>null\<close>.
\<close>

theorem malformed_manifest_aborts_detection:
  "detectProjectType_U json_parse_sample malformed_manifest_repo = Inl SyntaxError
   \<and> detectProjectType_I json_parse_sample malformed_manifest_repo = Inl SyntaxError
   \<and> runTests_U json_parse_sample to_string_sample exec_sample malformed_manifest_repo None
       = Inl (FailedToRun SyntaxError)
   \<and> runTests_I json_parse_sample spawn_sample 1200000 malformed_manifest_repo None
       = Some (Inl (FailedToRun SyntaxError))
   \<and> determineTestCommand json_parse_sample exec_sample malformed_manifest_repo (js ''node'') = None
   \<and> determineIntegrationTestCommand json_parse_sample malformed_manifest_repo (js ''node'') = None"
  by (simp add: text_defs)

lemma malformed_manifest_in_general:
  assumes "has rp (js ''package.json'')" and "content rp (js ''package.json'') = Some txt"
    and "json_parse txt = None"
  shows "detectProjectType_U json_parse rp = Inl SyntaxError"
    and "non_git_empty rp = False \<Longrightarrow> detectProjectType_I json_parse rp = Inl SyntaxError"
  using assms by (simp_all add: detectProjectType_U_def detectProjectType_I_def read_json_def)

text \<open>
  C6, as the code has it. For a repository that exists and whose directory holds nothing
  but \<open>.git\<close>: \<open>runTests\<close> of the integration agent returns its fixed result whatever
  the caller's command and whatever a child process would do, so that no command is
  run and no parser called. \<open>runTests\<close> of the unit agent (no manifest file being
  found) runs a command all the same, the caller's or else
  \<open>echo "Repository is empty, no tests to run"\<close>: when the command fails the call
  fails, and when it succeeds \<open>_parseTestResults\<close> returns the result for the tag
  \<open>empty\<close> before it looks at the format. Both results have \<open>success = true\<close>, the
  summary \<open>{total: 1, passed: 0, failed: 0, skipped: 1}\<close> and one case, of status
  \<open>skipped\<close>.
\<close>

theorem empty_repository_result:
  assumes "path_ok rp" and "listing rp = Some files"
    and "list_all (\<lambda>file. file = js ''.git'') files"
  shows "runTests_I json_parse spawn timeout rp testCommand = Some (Inr empty_integration_result)
       \<and> (list_all (absent rp) manifests \<longrightarrow>
            runTests_U json_parse to_string exec rp testCommand
              = (case choose_command testCommand
                        (Some (js ''echo \"Repository is empty, no tests to run\"'')) of
                   None \<Rightarrow> Inl (FailedToRun (NoTestCommand (js ''empty'')))
                 | Some command \<Rightarrow>
                     (case exec command of
                        Inl e \<Rightarrow> Inl (FailedToRun e)
                      | Inr (out, err) \<Rightarrow> Inr (empty_result (standardResult out err)))))
       \<and> list_all (\<lambda>r. success r = JBool True
                       \<and> summary r = \<lparr> total = JNum 1, passed = JNum 0, failed = JNum 0,
                                       skipped = JNum 1 \<rparr>
                       \<and> map status (details r) = [JStr (js ''skipped'')])
           [empty_integration_result, empty_result (standardResult out err)]"
proof -
  have e: "non_git_empty rp"
    using assms(2) only_git_filter [OF assms(3)] by (simp add: non_git_empty_def)
  have i: "runTests_I json_parse spawn timeout rp testCommand = Some (Inr empty_integration_result)"
    using assms(1) e by (simp add: runTests_I_def detectProjectType_I_def)
  have u: "list_all (absent rp) manifests \<longrightarrow>
            runTests_U json_parse to_string exec rp testCommand
              = (case choose_command testCommand
                        (Some (js ''echo \"Repository is empty, no tests to run\"'')) of
                   None \<Rightarrow> Inl (FailedToRun (NoTestCommand (js ''empty'')))
                 | Some command \<Rightarrow>
                     (case exec command of
                        Inl e \<Rightarrow> Inl (FailedToRun e)
                      | Inr (out, err) \<Rightarrow> Inr (empty_result (standardResult out err))))"
  proof
    assume "list_all (absent rp) manifests"
    then have d: "detectProjectType_U json_parse rp = Inr (js ''empty'')"
      using e by (simp add: manifests_def absent_def detectProjectType_U_def split: if_splits)
    have p: "\<And>a b. parseTestResults json_parse to_string a b (js ''empty'')
                     = Inr (empty_result (standardResult a b))"
      by (simp add: parseTestResults_def)
    show "runTests_U json_parse to_string exec rp testCommand
              = (case choose_command testCommand
                        (Some (js ''echo \"Repository is empty, no tests to run\"'')) of
                   None \<Rightarrow> Inl (FailedToRun (NoTestCommand (js ''empty'')))
                 | Some command \<Rightarrow>
                     (case exec command of
                        Inl e \<Rightarrow> Inl (FailedToRun e)
                      | Inr (out, err) \<Rightarrow> Inr (empty_result (standardResult out err))))"
      using assms(1) d p
      by (simp add: runTests_U_def determineTestCommand_def rethrow_def
            split: option.splits sum.splits prod.splits)
  qed
  have r: "list_all (\<lambda>r. success r = JBool True
                       \<and> summary r = \<lparr> total = JNum 1, passed = JNum 0, failed = JNum 0,
                                       skipped = JNum 1 \<rparr>
                       \<and> map status (details r) = [JStr (js ''skipped'')])
           [empty_integration_result, empty_result (standardResult out err)]"
    by (simp add: empty_integration_result_def empty_result_def standardResult_def)
  show ?thesis using i u r by blast
qed

theorem empty_repository_result_witness:
  "path_ok git_only_repo \<and> listing git_only_repo = Some [js ''.git'']
   \<and> list_all (\<lambda>file. file = js ''.git'') [js ''.git'']
   \<and> list_all (absent git_only_repo) manifests
   \<and> runTests_I json_parse_sample spawn_sample 1200000 git_only_repo None
       = Some (Inr empty_integration_result)
   \<and> runTests_U json_parse_sample to_string_sample exec_sample git_only_repo None
       = Inr (empty_result (standardResult (js ''Repository is empty, no tests to run'' @ [10]) []))"
proof -
  have h: "path_ok git_only_repo" "listing git_only_repo = Some [js ''.git'']"
      "list_all (\<lambda>file. file = js ''.git'') [js ''.git'']"
    by (simp_all add: git_only_repo_def)
  have m: "list_all (absent git_only_repo) manifests"
    by (simp add: git_only_repo_def manifests_def absent_def)
  show ?thesis
    using h m
      empty_repository_result [OF h, of json_parse_sample spawn_sample 1200000 None
                                 to_string_sample exec_sample "[]" "[]"]
    by (simp add: choose_command_def exec_sample_def)
qed

text \<open>
  C6, as the specification states it, fails for the unit agent: on a directory that
  holds only \<open>.git\<close>, with the caller's command \<open>exit 1\<close>, the command is run, it
  fails, and \<open>runTests\<close> throws instead of returning the result of an empty repository.
\<close>

theorem unit_empty_repository_counterexample:
  "runTests_U json_parse_sample to_string_sample exec_sample git_only_repo (Some (js ''exit 1''))
     = Inl (FailedToRun (ProcessError (js ''Command failed: exit 1'')))"
  by (simp add: text_defs)

end
